theory Spec2Isabelle
  imports Complex_Main
begin

section \<open>Values exchanged with the HTTP library\<close>

text \<open>
  Python floats that the executor handles: the backoff variable only ever holds the
  exactly representable values 1, 2, 4, 8 and 16, while a \<open>Retry-After\<close> header
  converted by \<open>float()\<close> may be any float, including the infinities and NaN.
\<close>

datatype pyfloat = Finite rat | PosInf | NegInf | NaN

text \<open>
  What \<open>resp.json()\<close> can return: any JSON value, as the Python object the
  decoder builds. A dict is an association list read with \<open>map_of\<close>.
\<close>

datatype pyval =
    PNone
  | PBool bool
  | PInt int
  | PFloat pyfloat
  | PStr string
  | PList "pyval list"
  | PDict "(string \<times> pyval) list"

text \<open>The pieces of an f-string: literal text and interpolated values.\<close>

datatype fpart = Lit string | Fmt pyval

text \<open>
  The exceptions that can leave \<open>GSCClient._request\<close>. \<open>AuthError\<close> is a plain
  \<open>GSCError\<close> built from one formatted string; \<open>ApiError\<close> and its two
  subclasses take status, message and reason. The remaining constructors are the
  exceptions of the Python runtime and of the HTTP library that the method does not
  catch.
\<close>

datatype exn =
    AuthError "fpart list"
  | ApiError int pyval pyval
  | RateLimitError int pyval pyval
  | RetryableError int pyval pyval
  | JSONDecodeError
  | ValueError
  | OverflowError
  | AttributeError
  | RequestException string

text \<open>The arguments of one \<open>self._session.request(method, url, json=..., timeout=...)\<close>.\<close>

record request =
  rq_method :: string
  rq_url :: string
  rq_json :: "pyval option"
  rq_timeout :: int

text \<open>
  The attributes of a response object that the method reads. \<open>json\<close> is the result
  of calling \<open>resp.json()\<close>, with \<open>None\<close> when the call raises.
\<close>

record response =
  status_code :: int
  content :: string
  text_of :: string
  headers :: "string \<rightharpoonup> string"
  json :: "pyval option"

section \<open>Python primitives used by the method\<close>

text \<open>Truth value of an object, as \<open>or\<close> and \<open>if\<close> test it.\<close>

fun truthy :: "pyval \<Rightarrow> bool" where
  "truthy PNone = False"
| "truthy (PBool b) = b"
| "truthy (PInt i) = (i \<noteq> 0)"
| "truthy (PFloat f) = (f \<noteq> Finite 0)"
| "truthy (PStr s) = (s \<noteq> [])"
| "truthy (PList xs) = (xs \<noteq> [])"
| "truthy (PDict kvs) = (kvs \<noteq> [])"

definition py_or :: "pyval \<Rightarrow> pyval \<Rightarrow> pyval" where
  "py_or a b = (if truthy a then a else b)"

text \<open>\<open>x.get(k, d)\<close>: only a dict has the method; on anything else it is an AttributeError.\<close>

fun py_get :: "pyval \<Rightarrow> string \<Rightarrow> pyval \<Rightarrow> exn + pyval" where
  "py_get (PDict kvs) k d = Inr (case map_of kvs k of None \<Rightarrow> d | Some v \<Rightarrow> v)"
| "py_get _ k d = Inl AttributeError"

fun is_dict :: "pyval \<Rightarrow> bool" where
  "is_dict (PDict kvs) = True"
| "is_dict _ = False"

fun is_list :: "pyval \<Rightarrow> bool" where
  "is_list (PList xs) = True"
| "is_list _ = False"

text \<open>
  \<open>time.sleep(d)\<close>: the exception it raises, if any. CPython first converts the
  seconds to a count of nanoseconds in a signed 64-bit integer: NaN is a ValueError, and
  a value outside that range (the infinities, and anything from about 9.2e9 seconds in
  absolute value) is an OverflowError. A negative value that passes the conversion is a
  ValueError. The range test is made here on the exact product; the rounding of the
  floating-point product matters only within one unit in the last place of the bound.
\<close>

fun time_sleep :: "pyfloat \<Rightarrow> exn option" where
  "time_sleep NaN = Some ValueError"
| "time_sleep PosInf = Some OverflowError"
| "time_sleep NegInf = Some OverflowError"
| "time_sleep (Finite d) =
     (if d * 10 ^ 9 < - (2 ^ 63) \<or> 2 ^ 63 \<le> d * 10 ^ 9 then Some OverflowError
      else if d < 0 then Some ValueError
      else None)"

section \<open>Error body extraction (lines 111 to 122)\<close>

text \<open>
  The \<open>reason\<close> part of the \<open>try\<close> block. It runs once \<open>message\<close> has been
  computed, so \<open>err\<close> is a dict here.
\<close>

definition extract_reason :: "pyval \<Rightarrow> pyval" where
  "extract_reason err =
     (case err of
        PDict kvs \<Rightarrow>
          (case map_of kvs ''error'' of
             Some (PDict e) \<Rightarrow>
               (let reasons = py_or (case map_of e ''errors'' of None \<Rightarrow> PNone | Some v \<Rightarrow> v) (PList [])
                in (case reasons of
                      PList (PDict r0 # rest) \<Rightarrow>
                        (case map_of r0 ''reason'' of None \<Rightarrow> PNone | Some v \<Rightarrow> v)
                    | _ \<Rightarrow> PNone))
           | _ \<Rightarrow> PNone)
      | _ \<Rightarrow> PNone)"

text \<open>The body of the \<open>try\<close>: message and reason, or the exception raised on the way.\<close>

definition try_parse :: "response \<Rightarrow> exn + (pyval \<times> pyval)" where
  "try_parse resp =
     (case json resp of
        None \<Rightarrow> Inl JSONDecodeError
      | Some err \<Rightarrow>
          (case py_get err ''error'' (PDict []) of
             Inl x \<Rightarrow> Inl x
           | Inr e \<Rightarrow>
               (case py_get e ''message'' PNone of
                  Inl x \<Rightarrow> Inl x
                | Inr m1 \<Rightarrow>
                    (case py_get err ''message'' PNone of
                       Inl x \<Rightarrow> Inl x
                     | Inr m2 \<Rightarrow>
                         Inr (py_or m1 (py_or m2 (PStr (text_of resp))), extract_reason err)))))"

text \<open>The whole \<open>try ... except Exception\<close>: any exception gives the raw text and no reason.\<close>

definition parse_error :: "response \<Rightarrow> pyval \<times> pyval" where
  "parse_error resp =
     (case try_parse resp of
        Inl x \<Rightarrow> (PStr (text_of resp), PNone)
      | Inr mr \<Rightarrow> mr)"

section \<open>The retrying request executor (lines 99 to 141)\<close>

text \<open>
  The local variables of one call together with the trace of its effects: the requests
  handed to the transport, the responses it gave back and the arguments of the
  \<open>time.sleep\<close> calls, each in order.
\<close>

record call_state =
  attempts :: nat
  backoff :: rat
  sent :: "request list"
  received :: "response list"
  slept :: "pyfloat list"

definition init_state :: call_state where
  "init_state = \<lparr>attempts = 0, backoff = 1, sent = [], received = [], slept = []\<rparr>"

definition max_backoff :: rat where
  "max_backoff = 16"

datatype outcome = Return pyval | Raise exn

text \<open>
  \<open>float(resp.headers.get("Retry-After", backoff))\<close>. The conversion of a header
  string by the builtin \<open>float\<close> is the parameter \<open>flt\<close>, which gives \<open>None\<close>
  where \<open>float\<close> raises ValueError.
\<close>

definition sleep_for_429 :: "(string \<Rightarrow> pyfloat option) \<Rightarrow> response \<Rightarrow> rat \<Rightarrow> exn + pyfloat" where
  "sleep_for_429 flt resp b =
     (case headers resp ''Retry-After'' of
        None \<Rightarrow> Inr (Finite b)
      | Some h \<Rightarrow> (case flt h of None \<Rightarrow> Inl ValueError | Some d \<Rightarrow> Inr d))"

text \<open>
  One pass through the body of \<open>while True\<close>: the pass either leaves the method
  (\<open>return\<close> or \<open>raise\<close>) or reaches a \<open>continue\<close>. The transport
  \<open>send\<close> acts on a world \<open>'w\<close> and either gives a response or raises an
  exception of the HTTP library, which is not caught.
\<close>

datatype 'w iter = Done outcome 'w call_state | Continue 'w call_state

definition attempt ::
  "(string \<Rightarrow> pyfloat option) \<Rightarrow> ('w \<Rightarrow> request \<Rightarrow> (string + response) \<times> 'w) \<Rightarrow> request \<Rightarrow>
   'w \<Rightarrow> call_state \<Rightarrow> 'w iter" where
  "attempt flt send req w st =
     (let st1 = st\<lparr>attempts := attempts st + 1, sent := sent st @ [req]\<rparr>;
          reply = send w req;
          w1 = snd reply
      in (case fst reply of
            Inl x \<Rightarrow> Done (Raise (RequestException x)) w1 st1
          | Inr resp \<Rightarrow>
              (let st2 = st1\<lparr>received := received st1 @ [resp]\<rparr>
               in if 200 \<le> status_code resp \<and> status_code resp < 300 then
                    (if content resp \<noteq> [] then
                       (case json resp of
                          None \<Rightarrow> Done (Raise JSONDecodeError) w1 st2
                        | Some v \<Rightarrow> Done (Return v) w1 st2)
                     else Done (Return (PDict [])) w1 st2)
                  else
                    (let message = fst (parse_error resp);
                         reason = snd (parse_error resp)
                     in if status_code resp = 401 then
                          Done (Raise (AuthError [Lit ''Unauthorized: '', Fmt message])) w1 st2
                        else if status_code resp = 429 then
                          (if attempts st2 \<le> 5 then
                             (case sleep_for_429 flt resp (backoff st2) of
                                Inl x \<Rightarrow> Done (Raise x) w1 st2
                              | Inr d \<Rightarrow>
                                  (let st3 = st2\<lparr>slept := slept st2 @ [d]\<rparr>
                                   in (case time_sleep d of
                                         Some x \<Rightarrow> Done (Raise x) w1 st3
                                       | None \<Rightarrow>
                                           Continue w1
                                             (st3\<lparr>backoff := min (backoff st3 * 2) max_backoff\<rparr>))))
                           else Done (Raise (RateLimitError (status_code resp) message reason)) w1 st2)
                        else if 500 \<le> status_code resp \<and> status_code resp < 600 then
                          (if attempts st2 \<le> 5 then
                             (let st3 = st2\<lparr>slept := slept st2 @ [Finite (backoff st2)]\<rparr>
                              in (case time_sleep (Finite (backoff st2)) of
                                    Some x \<Rightarrow> Done (Raise x) w1 st3
                                  | None \<Rightarrow>
                                      Continue w1
                                        (st3\<lparr>backoff := min (backoff st3 * 2) max_backoff\<rparr>)))
                           else Done (Raise (RetryableError (status_code resp) message reason)) w1 st2)
                        else Done (Raise (ApiError (status_code resp) message reason)) w1 st2))))"

text \<open>
  The loop itself. A pass continues only while the attempt count is at most 5, which
  bounds the number of passes.
\<close>

function request_loop ::
  "(string \<Rightarrow> pyfloat option) \<Rightarrow> ('w \<Rightarrow> request \<Rightarrow> (string + response) \<times> 'w) \<Rightarrow> request \<Rightarrow>
   'w \<Rightarrow> call_state \<Rightarrow> outcome \<times> 'w \<times> call_state" where
  "request_loop flt send req w st =
     (case attempt flt send req w st of
        Done out w1 st1 \<Rightarrow> (out, w1, st1)
      | Continue w1 st1 \<Rightarrow> request_loop flt send req w1 st1)"
  by pat_completeness auto
termination
  by (relation "measure (\<lambda>(flt, send, req, w, st). 6 - attempts st)")
     (auto simp: attempt_def Let_def split: sum.splits option.splits if_splits)

text \<open>\<open>GSCClient._request\<close>: the loop from \<open>backoff = 1.0\<close> and \<open>attempts = 0\<close>.\<close>

definition request_exec ::
  "(string \<Rightarrow> pyfloat option) \<Rightarrow> ('w \<Rightarrow> request \<Rightarrow> (string + response) \<times> 'w) \<Rightarrow> request \<Rightarrow>
   'w \<Rightarrow> outcome \<times> 'w \<times> call_state" where
  "request_exec flt send req w = request_loop flt send req w init_state"

section \<open>The exception classes of \<open>api/_exceptions.py\<close>\<close>

text \<open>
  \<open>ApiError.__init__\<close> stores \<open>status\<close> and \<open>reason\<close> as attributes and hands
  \<open>message\<close> to \<open>Exception.__init__\<close>; \<open>RateLimitError\<close> and
  \<open>RetryableError\<close> inherit it. \<open>AuthError\<close> defines nothing of its own, so it has
  neither attribute: reading one is \<open>None\<close> here.
\<close>

fun exn_status :: "exn \<Rightarrow> int option" where
  "exn_status (ApiError s m r) = Some s"
| "exn_status (RateLimitError s m r) = Some s"
| "exn_status (RetryableError s m r) = Some s"
| "exn_status _ = None"

fun exn_reason :: "exn \<Rightarrow> pyval option" where
  "exn_reason (ApiError s m r) = Some r"
| "exn_reason (RateLimitError s m r) = Some r"
| "exn_reason (RetryableError s m r) = Some r"
| "exn_reason _ = None"

text \<open>
  The single argument given to \<open>Exception.__init__\<close>, as the pieces that render it:
  the message object for the \<open>ApiError\<close> family, the whole f-string for
  \<open>AuthError\<close>.
\<close>

fun exn_message :: "exn \<Rightarrow> fpart list" where
  "exn_message (AuthError ps) = ps"
| "exn_message (ApiError s m r) = [Fmt m]"
| "exn_message (RateLimitError s m r) = [Fmt m]"
| "exn_message (RetryableError s m r) = [Fmt m]"
| "exn_message _ = []"

text \<open>\<open>isinstance(e, GSCError)\<close>: the four typed errors of the SDK.\<close>

fun is_gsc_error :: "exn \<Rightarrow> bool" where
  "is_gsc_error (AuthError ps) = True"
| "is_gsc_error (ApiError s m r) = True"
| "is_gsc_error (RateLimitError s m r) = True"
| "is_gsc_error (RetryableError s m r) = True"
| "is_gsc_error _ = False"

section \<open>Test doubles and sample data\<close>

text \<open>
  A transport in the manner of the \<open>fake_request\<close> functions of the test suite: it
  plays a script of replies, one per call, and raises once the script is used up.
\<close>

fun fake_request ::
  "(string + response) list \<Rightarrow> request \<Rightarrow> (string + response) \<times> (string + response) list" where
  "fake_request [] rq = (Inl ''no more responses'', [])"
| "fake_request (r # rs) rq = (r, rs)"

text \<open>
  A stand-in for the builtin \<open>float\<close> on header strings, used only to run examples:
  a non-empty string of ASCII digits is converted to its value, and anything else is
  rejected. On the strings of the examples below it agrees with \<open>float\<close>.
\<close>

definition float_digits :: "string \<Rightarrow> pyfloat option" where
  "float_digits s =
     (if s \<noteq> [] \<and> list_all (\<lambda>c. c \<in> set ''0123456789'') s
      then Some (Finite (of_nat (foldl (\<lambda>a c. 10 * a + (of_char c - (48::nat))) 0 s)))
      else None)"

definition sites_list_request :: request where
  "sites_list_request =
     \<lparr>rq_method = ''GET'', rq_url = ''https://www.googleapis.com/webmasters/v3/sites'',
      rq_json = None, rq_timeout = 30\<rparr>"

definition resp_401 :: response where
  \<open>resp_401 =
     \<lparr>status_code = 401,
      content = ''{"error": {"message": "Unauthorized"}}'',
      text_of = ''{"error": {"message": "Unauthorized"}}'',
      headers = Map.empty,
      json = Some (PDict [(''error'', PDict [(''message'', PStr ''Unauthorized'')])])\<rparr>\<close>

definition resp_429 :: "string option \<Rightarrow> response" where
  \<open>resp_429 h =
     \<lparr>status_code = 429,
      content = ''{"error": {"message": "rate limit"}}'',
      text_of = ''{"error": {"message": "rate limit"}}'',
      headers = (case h of None \<Rightarrow> Map.empty | Some v \<Rightarrow> [''Retry-After'' \<mapsto> v]),
      json = Some (PDict [(''error'', PDict [(''message'', PStr ''rate limit'')])])\<rparr>\<close>

definition resp_plain :: "int \<Rightarrow> string \<Rightarrow> response" where
  "resp_plain code body =
     \<lparr>status_code = code, content = body, text_of = body, headers = Map.empty, json = None\<rparr>"

definition resp_200_rows :: response where
  \<open>resp_200_rows =
     \<lparr>status_code = 200,
      content = ''{"rows": [], "responseAggregationType": "auto"}'',
      text_of = ''{"rows": [], "responseAggregationType": "auto"}'',
      headers = Map.empty,
      json = Some (PDict [(''rows'', PList []), (''responseAggregationType'', PStr ''auto'')])\<rparr>\<close>

definition resp_403 :: response where
  \<open>resp_403 =
     \<lparr>status_code = 403,
      content = ''{"error": {"message": "Forbidden", "errors": [{"reason": "forbidden"}]}}'',
      text_of = ''{"error": {"message": "Forbidden", "errors": [{"reason": "forbidden"}]}}'',
      headers = Map.empty,
      json = Some (PDict [(''error'', PDict [(''message'', PStr ''Forbidden''),
                (''errors'', PList [PDict [(''reason'', PStr ''forbidden'')]])])])\<rparr>\<close>

definition resp_200_list :: response where
  \<open>resp_200_list =
     \<lparr>status_code = 200,
      content = ''[1, 2]'',
      text_of = ''[1, 2]'',
      headers = Map.empty,
      json = Some (PList [PInt 1, PInt 2])\<rparr>\<close>

section \<open>The backoff schedule as the specification words it\<close>

text \<open>
  ``Backoff base = 1 time unit; doubling each retry; capped at 16 time units'': the
  internal delay in force for the retry with index \<open>k\<close>, counted from 0.
\<close>

definition spec_backoff :: "nat \<Rightarrow> rat" where
  "spec_backoff k = min (2 ^ k) 16"

text \<open>
  ``Sleep for a duration taken from a Retry-After response header if present and
  parseable as a number, else the current backoff value'', the header being looked at
  on a 429 only.
\<close>

definition spec_sleep :: "(string \<Rightarrow> pyfloat option) \<Rightarrow> nat \<Rightarrow> response \<Rightarrow> pyfloat" where
  "spec_sleep flt k resp =
     (if status_code resp = 429 then
        (case headers resp ''Retry-After'' of
           None \<Rightarrow> Finite (spec_backoff k)
         | Some h \<Rightarrow> (case flt h of None \<Rightarrow> Finite (spec_backoff k) | Some d \<Rightarrow> d))
      else Finite (spec_backoff k))"

section \<open>One pass of the loop\<close>

declare request_loop.simps [simp del]

lemma attempt_transport:
  "fst (send w req) = Inl x \<Longrightarrow>
   attempt flt send req w st =
     Done (Raise (RequestException x)) (snd (send w req))
       (st\<lparr>attempts := attempts st + 1, sent := sent st @ [req]\<rparr>)"
  by (simp add: attempt_def Let_def)

lemma attempt_2xx:
  "fst (send w req) = Inr resp \<Longrightarrow> 200 \<le> status_code resp \<Longrightarrow> status_code resp < 300 \<Longrightarrow>
   attempt flt send req w st =
     Done (if content resp \<noteq> [] then (case json resp of None \<Rightarrow> Raise JSONDecodeError | Some v \<Rightarrow> Return v)
           else Return (PDict []))
       (snd (send w req))
       (st\<lparr>attempts := attempts st + 1, sent := sent st @ [req], received := received st @ [resp]\<rparr>)"
  by (simp add: attempt_def Let_def split: option.splits)

lemma attempt_401:
  "fst (send w req) = Inr resp \<Longrightarrow> status_code resp = 401 \<Longrightarrow>
   attempt flt send req w st =
     Done (Raise (AuthError [Lit ''Unauthorized: '', Fmt (fst (parse_error resp))]))
       (snd (send w req))
       (st\<lparr>attempts := attempts st + 1, sent := sent st @ [req], received := received st @ [resp]\<rparr>)"
  by (simp add: attempt_def Let_def)

lemma attempt_429_last:
  "fst (send w req) = Inr resp \<Longrightarrow> status_code resp = 429 \<Longrightarrow> 5 \<le> attempts st \<Longrightarrow>
   attempt flt send req w st =
     Done (Raise (RateLimitError (status_code resp) (fst (parse_error resp)) (snd (parse_error resp))))
       (snd (send w req))
       (st\<lparr>attempts := attempts st + 1, sent := sent st @ [req], received := received st @ [resp]\<rparr>)"
  by (simp add: attempt_def Let_def)

lemma attempt_429_badheader:
  "fst (send w req) = Inr resp \<Longrightarrow> status_code resp = 429 \<Longrightarrow> attempts st < 5 \<Longrightarrow>
   sleep_for_429 flt resp (backoff st) = Inl x \<Longrightarrow>
   attempt flt send req w st =
     Done (Raise x) (snd (send w req))
       (st\<lparr>attempts := attempts st + 1, sent := sent st @ [req], received := received st @ [resp]\<rparr>)"
  by (simp add: attempt_def Let_def)

lemma attempt_429_badsleep:
  "fst (send w req) = Inr resp \<Longrightarrow> status_code resp = 429 \<Longrightarrow> attempts st < 5 \<Longrightarrow>
   sleep_for_429 flt resp (backoff st) = Inr d \<Longrightarrow> time_sleep d = Some x \<Longrightarrow>
   attempt flt send req w st =
     Done (Raise x) (snd (send w req))
       (st\<lparr>attempts := attempts st + 1, sent := sent st @ [req], received := received st @ [resp],
           slept := slept st @ [d]\<rparr>)"
  by (simp add: attempt_def Let_def)

lemma attempt_429_retry:
  "fst (send w req) = Inr resp \<Longrightarrow> status_code resp = 429 \<Longrightarrow> attempts st < 5 \<Longrightarrow>
   sleep_for_429 flt resp (backoff st) = Inr d \<Longrightarrow> time_sleep d = None \<Longrightarrow>
   attempt flt send req w st =
     Continue (snd (send w req))
       (st\<lparr>attempts := attempts st + 1, sent := sent st @ [req], received := received st @ [resp],
           slept := slept st @ [d], backoff := min (backoff st * 2) max_backoff\<rparr>)"
  by (simp add: attempt_def Let_def)

lemma attempt_5xx_last:
  "fst (send w req) = Inr resp \<Longrightarrow> 500 \<le> status_code resp \<Longrightarrow> status_code resp < 600 \<Longrightarrow>
   5 \<le> attempts st \<Longrightarrow>
   attempt flt send req w st =
     Done (Raise (RetryableError (status_code resp) (fst (parse_error resp)) (snd (parse_error resp))))
       (snd (send w req))
       (st\<lparr>attempts := attempts st + 1, sent := sent st @ [req], received := received st @ [resp]\<rparr>)"
  by (simp add: attempt_def Let_def)

lemma attempt_5xx_badsleep:
  "fst (send w req) = Inr resp \<Longrightarrow> 500 \<le> status_code resp \<Longrightarrow> status_code resp < 600 \<Longrightarrow>
   attempts st < 5 \<Longrightarrow> time_sleep (Finite (backoff st)) = Some x \<Longrightarrow>
   attempt flt send req w st =
     Done (Raise x) (snd (send w req))
       (st\<lparr>attempts := attempts st + 1, sent := sent st @ [req], received := received st @ [resp],
           slept := slept st @ [Finite (backoff st)]\<rparr>)"
  by (simp add: attempt_def Let_def)

lemma attempt_5xx_retry:
  "fst (send w req) = Inr resp \<Longrightarrow> 500 \<le> status_code resp \<Longrightarrow> status_code resp < 600 \<Longrightarrow>
   attempts st < 5 \<Longrightarrow> time_sleep (Finite (backoff st)) = None \<Longrightarrow>
   attempt flt send req w st =
     Continue (snd (send w req))
       (st\<lparr>attempts := attempts st + 1, sent := sent st @ [req], received := received st @ [resp],
           slept := slept st @ [Finite (backoff st)], backoff := min (backoff st * 2) max_backoff\<rparr>)"
  by (simp add: attempt_def Let_def)

lemma attempt_other:
  "fst (send w req) = Inr resp \<Longrightarrow> \<not> (200 \<le> status_code resp \<and> status_code resp < 300) \<Longrightarrow>
   status_code resp \<noteq> 401 \<Longrightarrow> status_code resp \<noteq> 429 \<Longrightarrow>
   \<not> (500 \<le> status_code resp \<and> status_code resp < 600) \<Longrightarrow>
   attempt flt send req w st =
     Done (Raise (ApiError (status_code resp) (fst (parse_error resp)) (snd (parse_error resp))))
       (snd (send w req))
       (st\<lparr>attempts := attempts st + 1, sent := sent st @ [req], received := received st @ [resp]\<rparr>)"
  by (auto simp add: attempt_def Let_def)

text \<open>Every pass is one of the eleven above.\<close>

lemma attempt_cases [case_names transport ok auth rate_last rate_badheader rate_badsleep rate_retry
    server_last server_badsleep server_retry other]:
  fixes flt :: "string \<Rightarrow> pyfloat option"
    and send :: "'w \<Rightarrow> request \<Rightarrow> (string + response) \<times> 'w"
  obtains
    x where "fst (send w req) = Inl x"
  | resp where "fst (send w req) = Inr resp" "200 \<le> status_code resp" "status_code resp < 300"
  | resp where "fst (send w req) = Inr resp" "status_code resp = 401"
  | resp where "fst (send w req) = Inr resp" "status_code resp = 429" "5 \<le> attempts st"
  | resp x where "fst (send w req) = Inr resp" "status_code resp = 429" "attempts st < 5"
      "sleep_for_429 flt resp (backoff st) = Inl x"
  | resp d x where "fst (send w req) = Inr resp" "status_code resp = 429" "attempts st < 5"
      "sleep_for_429 flt resp (backoff st) = Inr d" "time_sleep d = Some x"
  | resp d where "fst (send w req) = Inr resp" "status_code resp = 429" "attempts st < 5"
      "sleep_for_429 flt resp (backoff st) = Inr d" "time_sleep d = None"
  | resp where "fst (send w req) = Inr resp" "500 \<le> status_code resp" "status_code resp < 600"
      "5 \<le> attempts st"
  | resp x where "fst (send w req) = Inr resp" "500 \<le> status_code resp" "status_code resp < 600"
      "attempts st < 5" "time_sleep (Finite (backoff st)) = Some x"
  | resp where "fst (send w req) = Inr resp" "500 \<le> status_code resp" "status_code resp < 600"
      "attempts st < 5" "time_sleep (Finite (backoff st)) = None"
  | resp where "fst (send w req) = Inr resp" "\<not> (200 \<le> status_code resp \<and> status_code resp < 300)"
      "status_code resp \<noteq> 401" "status_code resp \<noteq> 429"
      "\<not> (500 \<le> status_code resp \<and> status_code resp < 600)"
proof (cases "fst (send w req)")
  case (Inl x)
  then show thesis by (rule that(1))
next
  case (Inr resp)
  note r = Inr
  show thesis
  proof (cases "status_code resp = 429")
    case True
    note rate = True
    show thesis
    proof (cases "attempts st < 5")
      case False
      then have "5 \<le> attempts st" by simp
      with r rate show thesis by (rule that(4))
    next
      case True
      show thesis
      proof (cases "sleep_for_429 flt resp (backoff st)")
        case (Inl x)
        with r rate True show thesis by (rule that(5))
      next
        case (Inr d)
        show thesis
        proof (cases "time_sleep d")
          case None
          with r rate True Inr show thesis by (rule that(7))
        next
          case (Some x)
          with r rate True Inr show thesis by (rule that(6))
        qed
      qed
    qed
  next
    case False
    note norate = False
    show thesis
    proof (cases "500 \<le> status_code resp \<and> status_code resp < 600")
      case True
      then have s: "500 \<le> status_code resp" "status_code resp < 600" by auto
      show thesis
      proof (cases "attempts st < 5")
        case False
        then have "5 \<le> attempts st" by simp
        with r s show thesis by (rule that(8))
      next
        case True
        show thesis
        proof (cases "time_sleep (Finite (backoff st))")
          case None
          with r s True show thesis by (rule that(10))
        next
          case (Some x)
          with r s True show thesis by (rule that(9))
        qed
      qed
    next
      case False
      note noserver = False
      show thesis
      proof (cases "status_code resp = 401")
        case True
        with r show thesis by (rule that(3))
      next
        case False
        show thesis
        proof (cases "200 \<le> status_code resp \<and> status_code resp < 300")
          case True
          then have "200 \<le> status_code resp" "status_code resp < 300" by auto
          with r show thesis by (rule that(2))
        next
          case ok: False
          from r ok False norate noserver show thesis by (rule that(11))
        qed
      qed
    qed
  qed
qed

lemma attempt_Continue:
  assumes "attempt flt send req w st = Continue w1 st1"
  shows "\<exists>resp d. fst (send w req) = Inr resp \<and> w1 = snd (send w req) \<and> attempts st < 5
           \<and> time_sleep d = None
           \<and> st1 = st\<lparr>attempts := attempts st + 1, sent := sent st @ [req],
                       received := received st @ [resp], slept := slept st @ [d],
                       backoff := min (backoff st * 2) max_backoff\<rparr>
           \<and> (if status_code resp = 429 then sleep_for_429 flt resp (backoff st) = Inr d
                else d = Finite (backoff st))"
proof (cases rule: attempt_cases[where send = send and w = w and req = req and st = st and flt = flt])
  case (transport x)
  with assms show ?thesis by (simp add: attempt_transport)
next
  case (ok resp)
  with assms show ?thesis by (simp add: attempt_2xx)
next
  case (auth resp)
  with assms show ?thesis by (simp add: attempt_401)
next
  case (rate_last resp)
  with assms show ?thesis by (simp add: attempt_429_last)
next
  case (rate_badheader resp x)
  with assms show ?thesis by (simp add: attempt_429_badheader)
next
  case (rate_badsleep resp d x)
  with assms show ?thesis by (simp add: attempt_429_badsleep)
next
  case (rate_retry resp d)
  with assms show ?thesis by (auto simp add: attempt_429_retry)
next
  case (server_last resp)
  with assms show ?thesis by (simp add: attempt_5xx_last)
next
  case (server_badsleep resp x)
  with assms show ?thesis by (simp add: attempt_5xx_badsleep)
next
  case (server_retry resp)
  with assms show ?thesis by (auto simp add: attempt_5xx_retry)
next
  case (other resp)
  with assms show ?thesis by (simp add: attempt_other)
qed

lemma attempt_Done_frame:
  assumes "attempt flt send req w st = Done out w1 st1"
  shows "w1 = snd (send w req) \<and> attempts st1 = attempts st + 1 \<and> sent st1 = sent st @ [req]
         \<and> backoff st1 = backoff st"
proof (cases rule: attempt_cases[where send = send and w = w and req = req and st = st and flt = flt])
  case (transport x)
  with assms show ?thesis by (auto simp add: attempt_transport)
next
  case (ok resp)
  with assms show ?thesis by (auto simp add: attempt_2xx)
next
  case (auth resp)
  with assms show ?thesis by (auto simp add: attempt_401)
next
  case (rate_last resp)
  with assms show ?thesis by (auto simp add: attempt_429_last)
next
  case (rate_badheader resp x)
  with assms show ?thesis by (auto simp add: attempt_429_badheader)
next
  case (rate_badsleep resp d x)
  with assms show ?thesis by (auto simp add: attempt_429_badsleep)
next
  case (rate_retry resp d)
  with assms show ?thesis by (auto simp add: attempt_429_retry)
next
  case (server_last resp)
  with assms show ?thesis by (auto simp add: attempt_5xx_last)
next
  case (server_badsleep resp x)
  with assms show ?thesis by (auto simp add: attempt_5xx_badsleep)
next
  case (server_retry resp)
  with assms show ?thesis by (auto simp add: attempt_5xx_retry)
next
  case (other resp)
  with assms show ?thesis by (auto simp add: attempt_other)
qed

text \<open>What a finishing pass adds to the traces of responses and sleeps.\<close>

lemma attempt_Done_logs:
  assumes "attempt flt send req w st = Done out w1 st1"
  shows "(received st1 = received st \<and> slept st1 = slept st \<and> \<not> (\<exists>e. out = Raise e \<and> is_gsc_error e))
       \<or> (\<exists>resp. fst (send w req) = Inr resp \<and> received st1 = received st @ [resp] \<and>
            (slept st1 = slept st
             \<or> (\<exists>d. slept st1 = slept st @ [d] \<and> \<not> (\<exists>e. out = Raise e \<and> is_gsc_error e) \<and>
                  (if status_code resp = 429 then sleep_for_429 flt resp (backoff st) = Inr d
                   else d = Finite (backoff st)))))"
proof (cases rule: attempt_cases[where send = send and w = w and req = req and st = st and flt = flt])
  case (transport x)
  with assms show ?thesis by (auto simp add: attempt_transport)
next
  case (ok resp)
  with assms show ?thesis by (auto simp add: attempt_2xx)
next
  case (auth resp)
  with assms show ?thesis by (auto simp add: attempt_401)
next
  case (rate_last resp)
  with assms show ?thesis by (auto simp add: attempt_429_last)
next
  case (rate_badheader resp x)
  with assms show ?thesis by (auto simp add: attempt_429_badheader)
next
  case (rate_badsleep resp d x)
  moreover from rate_badsleep have "\<not> is_gsc_error x" by (cases d) (auto split: if_splits)
  ultimately show ?thesis using assms by (auto simp add: attempt_429_badsleep)
next
  case (rate_retry resp d)
  with assms show ?thesis by (auto simp add: attempt_429_retry)
next
  case (server_last resp)
  with assms show ?thesis by (auto simp add: attempt_5xx_last)
next
  case (server_badsleep resp x)
  moreover from server_badsleep have "\<not> is_gsc_error x" by (auto split: if_splits)
  ultimately show ?thesis using assms by (auto simp add: attempt_5xx_badsleep)
next
  case (server_retry resp)
  with assms show ?thesis by (auto simp add: attempt_5xx_retry)
next
  case (other resp)
  with assms show ?thesis by (auto simp add: attempt_other)
qed

text \<open>A typed error leaves a pass only from the response just received, and without a sleep.\<close>

lemma attempt_Done_gsc:
  assumes "attempt flt send req w st = Done (Raise e) w1 st1" "is_gsc_error e"
  shows "\<exists>resp. fst (send w req) = Inr resp \<and> received st1 = received st @ [resp] \<and> slept st1 = slept st
           \<and> \<not> (200 \<le> status_code resp \<and> status_code resp < 300)
           \<and> e = (if status_code resp = 401
                    then AuthError [Lit ''Unauthorized: '', Fmt (fst (parse_error resp))]
                  else if status_code resp = 429
                    then RateLimitError (status_code resp) (fst (parse_error resp)) (snd (parse_error resp))
                  else if 500 \<le> status_code resp \<and> status_code resp < 600
                    then RetryableError (status_code resp) (fst (parse_error resp)) (snd (parse_error resp))
                  else ApiError (status_code resp) (fst (parse_error resp)) (snd (parse_error resp)))
           \<and> (status_code resp = 429 \<or> 500 \<le> status_code resp \<and> status_code resp < 600
                \<longrightarrow> 5 \<le> attempts st)"
proof (cases rule: attempt_cases[where send = send and w = w and req = req and st = st and flt = flt])
  case (transport x)
  with assms show ?thesis by (auto simp add: attempt_transport)
next
  case (ok resp)
  with assms show ?thesis by (auto simp add: attempt_2xx split: if_splits option.splits)
next
  case (auth resp)
  with assms show ?thesis by (auto simp add: attempt_401)
next
  case (rate_last resp)
  with assms show ?thesis by (auto simp add: attempt_429_last)
next
  case (rate_badheader resp x)
  moreover from rate_badheader have "\<not> is_gsc_error x"
    by (auto simp add: sleep_for_429_def split: option.splits)
  ultimately show ?thesis using assms by (auto simp add: attempt_429_badheader)
next
  case (rate_badsleep resp d x)
  moreover from rate_badsleep have "\<not> is_gsc_error x" by (cases d) (auto split: if_splits)
  ultimately show ?thesis using assms by (auto simp add: attempt_429_badsleep)
next
  case (rate_retry resp d)
  with assms show ?thesis by (auto simp add: attempt_429_retry)
next
  case (server_last resp)
  with assms show ?thesis by (auto simp add: attempt_5xx_last)
next
  case (server_badsleep resp x)
  moreover from server_badsleep have "\<not> is_gsc_error x" by (auto split: if_splits)
  ultimately show ?thesis using assms by (auto simp add: attempt_5xx_badsleep)
next
  case (server_retry resp)
  with assms show ?thesis by (auto simp add: attempt_5xx_retry)
next
  case (other resp)
  with assms show ?thesis by (auto simp add: attempt_other)
qed

text \<open>The loop as a whole: an invariant of the passes that continue gives a property of the result.\<close>

lemma request_loop_rule:
  assumes "I w st"
    and "\<And>w st w1 st1. I w st \<Longrightarrow> attempt flt send req w st = Continue w1 st1 \<Longrightarrow> I w1 st1"
    and "\<And>w st out w1 st1. I w st \<Longrightarrow> attempt flt send req w st = Done out w1 st1 \<Longrightarrow> Q out w1 st1"
  shows "case request_loop flt send req w st of (out, w1, st1) \<Rightarrow> Q out w1 st1"
  using assms
proof (induction flt send req w st rule: request_loop.induct)
  case (1 flt send req w st)
  show ?case
  proof (cases "attempt flt send req w st")
    case (Done out w1 st1)
    from "1.prems"(3)[OF "1.prems"(1) Done] show ?thesis
      by (subst request_loop.simps) (simp add: Done)
  next
    case (Continue w1 st1)
    from "1.prems"(2)[OF "1.prems"(1) Continue] have "I w1 st1" .
    from "1.IH"[OF Continue this "1.prems"(2,3)] show ?thesis
      by (subst request_loop.simps) (simp add: Continue)
  qed
qed

section \<open>Properties of a whole call\<close>

text \<open>A typed error that leaves the call was built from the last response received.\<close>

lemma request_exec_typed_error:
  assumes "request_exec flt send req w = (Raise e, w', st')" and "is_gsc_error e"
  shows "received st' \<noteq> [] \<and> length (sent st') = length (received st')
       \<and> length (slept st') + 1 = length (received st') \<and> attempts st' = length (received st')
       \<and> \<not> (200 \<le> status_code (last (received st')) \<and> status_code (last (received st')) < 300)
       \<and> e = (let resp = last (received st') in
                if status_code resp = 401
                  then AuthError [Lit ''Unauthorized: '', Fmt (fst (parse_error resp))]
                else if status_code resp = 429
                  then RateLimitError (status_code resp) (fst (parse_error resp)) (snd (parse_error resp))
                else if 500 \<le> status_code resp \<and> status_code resp < 600
                  then RetryableError (status_code resp) (fst (parse_error resp)) (snd (parse_error resp))
                else ApiError (status_code resp) (fst (parse_error resp)) (snd (parse_error resp)))
       \<and> (status_code (last (received st')) = 429
            \<or> 500 \<le> status_code (last (received st')) \<and> status_code (last (received st')) < 600
           \<longrightarrow> attempts st' = 6)"
proof -
  let ?I = "\<lambda>(w::'a) st. attempts st \<le> 5 \<and> length (sent st) = attempts st
              \<and> length (received st) = attempts st \<and> length (slept st) = attempts st"
  let ?C = "\<lambda>e st'. received st' \<noteq> [] \<and> length (sent st') = length (received st')
       \<and> length (slept st') + 1 = length (received st') \<and> attempts st' = length (received st')
       \<and> \<not> (200 \<le> status_code (last (received st')) \<and> status_code (last (received st')) < 300)
       \<and> e = (let resp = last (received st') in
                if status_code resp = 401
                  then AuthError [Lit ''Unauthorized: '', Fmt (fst (parse_error resp))]
                else if status_code resp = 429
                  then RateLimitError (status_code resp) (fst (parse_error resp)) (snd (parse_error resp))
                else if 500 \<le> status_code resp \<and> status_code resp < 600
                  then RetryableError (status_code resp) (fst (parse_error resp)) (snd (parse_error resp))
                else ApiError (status_code resp) (fst (parse_error resp)) (snd (parse_error resp)))
       \<and> (status_code (last (received st')) = 429
            \<or> 500 \<le> status_code (last (received st')) \<and> status_code (last (received st')) < 600
           \<longrightarrow> attempts st' = 6)"
  let ?Q = "\<lambda>out (w1::'a) st1. \<forall>e. out = Raise e \<and> is_gsc_error e \<longrightarrow> ?C e st1"
  have init: "?I w init_state" by (simp add: init_state_def)
  have step: "?I w1 st1" if "?I w0 st0" "attempt flt send req w0 st0 = Continue w1 st1"
    for w0 st0 w1 st1
    using attempt_Continue[OF that(2)] that(1) by auto
  have fin: "?Q out w1 st1" if "?I w0 st0" "attempt flt send req w0 st0 = Done out w1 st1"
    for w0 st0 out w1 st1
  proof (intro allI impI)
    fix e assume e: "out = Raise e \<and> is_gsc_error e"
    with that(2) have d: "attempt flt send req w0 st0 = Done (Raise e) w1 st1" by simp
    from e have g: "is_gsc_error e" by simp
    from attempt_Done_gsc[OF d g] obtain resp where
      r: "received st1 = received st0 @ [resp]" "slept st1 = slept st0"
         "\<not> (200 \<le> status_code resp \<and> status_code resp < 300)"
         "status_code resp = 429 \<or> 500 \<le> status_code resp \<and> status_code resp < 600 \<longrightarrow> 5 \<le> attempts st0"
      and eq: "e = (if status_code resp = 401
                  then AuthError [Lit ''Unauthorized: '', Fmt (fst (parse_error resp))]
                else if status_code resp = 429
                  then RateLimitError (status_code resp) (fst (parse_error resp)) (snd (parse_error resp))
                else if 500 \<le> status_code resp \<and> status_code resp < 600
                  then RetryableError (status_code resp) (fst (parse_error resp)) (snd (parse_error resp))
                else ApiError (status_code resp) (fst (parse_error resp)) (snd (parse_error resp)))"
      by blast
    from attempt_Done_frame[OF d] have f: "attempts st1 = attempts st0 + 1" "sent st1 = sent st0 @ [req]"
      by simp_all
    have l: "last (received st1) = resp" using r(1) by simp
    have c1: "received st1 \<noteq> []" using r(1) by simp
    have c2: "length (sent st1) = length (received st1)" using r(1) f(2) that(1) by simp
    have c3: "length (slept st1) + 1 = length (received st1)" using r(1,2) that(1) by simp
    have c4: "attempts st1 = length (received st1)" using r(1) f(1) that(1) by simp
    have c5: "\<not> (200 \<le> status_code (last (received st1)) \<and> status_code (last (received st1)) < 300)"
      unfolding l by (rule r(3))
    have c7: "status_code (last (received st1)) = 429
            \<or> 500 \<le> status_code (last (received st1)) \<and> status_code (last (received st1)) < 600
           \<longrightarrow> attempts st1 = 6"
      unfolding l using r(4) f(1) that(1) by auto
    have c6: "e = (let resp = last (received st1) in
                if status_code resp = 401
                  then AuthError [Lit ''Unauthorized: '', Fmt (fst (parse_error resp))]
                else if status_code resp = 429
                  then RateLimitError (status_code resp) (fst (parse_error resp)) (snd (parse_error resp))
                else if 500 \<le> status_code resp \<and> status_code resp < 600
                  then RetryableError (status_code resp) (fst (parse_error resp)) (snd (parse_error resp))
                else ApiError (status_code resp) (fst (parse_error resp)) (snd (parse_error resp)))"
      unfolding Let_def l by (rule eq)
    from c1 c2 c3 c4 c5 c6 c7 show "?C e st1" by blast
  qed
  have main: "case request_loop flt send req w init_state of (out, w1, st1) \<Rightarrow> ?Q out w1 st1"
    by (rule request_loop_rule[where I = ?I and Q = ?Q, OF init step fin])
  from assms(1) have eq: "request_loop flt send req w init_state = (Raise e, w', st')"
    by (simp only: request_exec_def)
  have "?Q (Raise e) w' st'" using main unfolding eq by (simp only: prod.case)
  with assms(2) show ?thesis by blast
qed

lemma spec_backoff_double: "min (spec_backoff n * 2) max_backoff = spec_backoff (Suc n)"
proof (cases "(2::rat) ^ n \<le> 16")
  case True
  then show ?thesis by (simp add: spec_backoff_def max_backoff_def min_def)
next
  case False
  then have "(16::rat) < 2 ^ n" by simp
  then show ?thesis by (simp add: spec_backoff_def max_backoff_def min_def)
qed

lemma spec_backoff_mono: "j \<le> k \<Longrightarrow> spec_backoff j \<le> spec_backoff k"
proof -
  assume "j \<le> k"
  then have "(2::rat) ^ j \<le> 2 ^ k" by (simp add: power_increasing)
  then have "min ((2::rat) ^ j) 16 \<le> min (2 ^ k) 16" by (rule min.mono) simp
  then show ?thesis by (simp only: spec_backoff_def)
qed

lemma sleep_matches_spec:
  assumes "if status_code resp = 429 then sleep_for_429 flt resp b = Inr d else d = Finite b"
    and "b = spec_backoff k"
  shows "d = spec_sleep flt k resp"
  using assms by (auto simp add: sleep_for_429_def spec_sleep_def split: option.splits if_splits)

text \<open>The sleeps of a call follow the schedule, and so does the backoff variable at its end.\<close>

lemma request_exec_schedule:
  "case request_exec flt send req w of (out, w', st') \<Rightarrow>
     backoff st' = spec_backoff (attempts st' - 1) \<and> length (slept st') \<le> length (received st')
     \<and> (\<forall>k<length (slept st'). slept st' ! k = spec_sleep flt k (received st' ! k))"
proof -
  let ?I = "\<lambda>(w::'a) st. backoff st = spec_backoff (attempts st)
              \<and> length (received st) = attempts st \<and> length (slept st) = attempts st
              \<and> (\<forall>k<length (slept st). slept st ! k = spec_sleep flt k (received st ! k))"
  let ?Q = "\<lambda>(out::outcome) (w1::'a) st'.
     backoff st' = spec_backoff (attempts st' - 1) \<and> length (slept st') \<le> length (received st')
     \<and> (\<forall>k<length (slept st'). slept st' ! k = spec_sleep flt k (received st' ! k))"
  have init: "?I w init_state" by (simp add: init_state_def spec_backoff_def)
  have step: "?I w1 st1" if "?I w0 st0" "attempt flt send req w0 st0 = Continue w1 st1"
    for w0 st0 w1 st1
  proof -
    from attempt_Continue[OF that(2)] obtain resp d where
      st1: "st1 = st0\<lparr>attempts := attempts st0 + 1, sent := sent st0 @ [req],
                       received := received st0 @ [resp], slept := slept st0 @ [d],
                       backoff := min (backoff st0 * 2) max_backoff\<rparr>"
      and d: "if status_code resp = 429 then sleep_for_429 flt resp (backoff st0) = Inr d
                else d = Finite (backoff st0)"
      by blast
    from that(1) have b: "backoff st0 = spec_backoff (attempts st0)" by simp
    from sleep_matches_spec[OF d b] have dd: "d = spec_sleep flt (attempts st0) resp" .
    have i1: "backoff st1 = spec_backoff (attempts st1)"
      by (simp add: st1 b spec_backoff_double)
    have i2: "length (received st1) = attempts st1" "length (slept st1) = attempts st1"
      using that(1) by (simp_all add: st1)
    have i3: "slept st1 ! k = spec_sleep flt k (received st1 ! k)" if "k < length (slept st1)" for k
    proof (cases "k < attempts st0")
      case True
      with \<open>?I w0 st0\<close> show ?thesis by (simp add: st1 nth_append)
    next
      case False
      with that \<open>?I w0 st0\<close> have "k = attempts st0" by (simp add: st1)
      with \<open>?I w0 st0\<close> dd show ?thesis by (simp add: st1 nth_append)
    qed
    from i1 i2 i3 show ?thesis by blast
  qed
  have fin: "?Q out w1 st1" if "?I w0 st0" "attempt flt send req w0 st0 = Done out w1 st1"
    for w0 st0 out w1 st1
  proof -
    from attempt_Done_frame[OF that(2)] have f: "attempts st1 = attempts st0 + 1" "backoff st1 = backoff st0"
      by simp_all
    from that(1) have b: "backoff st0 = spec_backoff (attempts st0)" by simp
    have q1: "backoff st1 = spec_backoff (attempts st1 - 1)" by (simp add: f b)
    from attempt_Done_logs[OF that(2)]
    consider (none) "received st1 = received st0" "slept st1 = slept st0"
      | (resp) resp where "received st1 = received st0 @ [resp]" "slept st1 = slept st0"
      | (sleep) resp d where "received st1 = received st0 @ [resp]" "slept st1 = slept st0 @ [d]"
          "if status_code resp = 429 then sleep_for_429 flt resp (backoff st0) = Inr d
           else d = Finite (backoff st0)"
      by blast
    then have q23: "length (slept st1) \<le> length (received st1)
       \<and> (\<forall>k<length (slept st1). slept st1 ! k = spec_sleep flt k (received st1 ! k))"
    proof cases
      case none
      with that(1) show ?thesis by simp
    next
      case resp
      with that(1) show ?thesis by (simp add: nth_append)
    next
      case (sleep resp d)
      from sleep_matches_spec[OF sleep(3) b] have dd: "d = spec_sleep flt (attempts st0) resp" .
      have "slept st1 ! k = spec_sleep flt k (received st1 ! k)" if "k < length (slept st1)" for k
      proof (cases "k < attempts st0")
        case True
        with \<open>?I w0 st0\<close> sleep show ?thesis by (simp add: nth_append)
      next
        case False
        with that \<open>?I w0 st0\<close> sleep have "k = attempts st0" by simp
        with \<open>?I w0 st0\<close> dd sleep show ?thesis by (simp add: nth_append)
      qed
      moreover have "length (slept st1) \<le> length (received st1)" using sleep that(1) by simp
      ultimately show ?thesis by blast
    qed
    from q1 q23 show ?thesis by blast
  qed
  have "case request_loop flt send req w init_state of (out, w1, st1) \<Rightarrow> ?Q out w1 st1"
    by (rule request_loop_rule[where I = ?I and Q = ?Q, OF init step fin])
  then show ?thesis by (simp only: request_exec_def)
qed

text \<open>Every pass hands the same descriptor to the transport.\<close>

lemma request_exec_sent:
  "case request_exec flt send req w of (out, w', st') \<Rightarrow>
     sent st' = replicate (attempts st') req \<and> 1 \<le> attempts st' \<and> attempts st' \<le> 6"
proof -
  let ?I = "\<lambda>(w::'a) st. sent st = replicate (attempts st) req \<and> attempts st \<le> 5"
  let ?Q = "\<lambda>(out::outcome) (w1::'a) st'.
     sent st' = replicate (attempts st') req \<and> 1 \<le> attempts st' \<and> attempts st' \<le> 6"
  have init: "?I w init_state" by (simp add: init_state_def)
  have step: "?I w1 st1" if "?I w0 st0" "attempt flt send req w0 st0 = Continue w1 st1"
    for w0 st0 w1 st1
    using attempt_Continue[OF that(2)] that(1) by (auto simp add: replicate_append_same)
  have fin: "?Q out w1 st1" if "?I w0 st0" "attempt flt send req w0 st0 = Done out w1 st1"
    for w0 st0 out w1 st1
    using attempt_Done_frame[OF that(2)] that(1) by (simp add: replicate_append_same)
  have "case request_loop flt send req w init_state of (out, w1, st1) \<Rightarrow> ?Q out w1 st1"
    by (rule request_loop_rule[where I = ?I and Q = ?Q, OF init step fin])
  then show ?thesis by (simp only: request_exec_def)
qed

text \<open>What \<open>time.sleep\<close> and \<open>float\<close> raise is never one of the typed errors.\<close>

lemma time_sleep_not_typed: "time_sleep d = Some x \<Longrightarrow> \<not> is_gsc_error x"
  by (cases d) (auto split: if_splits)

lemma sleep_for_429_not_typed: "sleep_for_429 flt resp b = Inl x \<Longrightarrow> \<not> is_gsc_error x"
  by (auto simp add: sleep_for_429_def split: option.splits)

text \<open>Within the retry budget a 429 or 5xx response never gives a typed error.\<close>

lemma attempt_in_budget_not_typed:
  assumes "fst (send w req) = Inr resp"
    and "status_code resp = 429 \<or> 500 \<le> status_code resp \<and> status_code resp < 600"
    and "attempts st < 5" and "is_gsc_error e"
  shows "attempt flt send req w st \<noteq> Done (Raise e) w1 st1"
proof (cases rule: attempt_cases[where send = send and w = w and req = req and st = st and flt = flt])
  case (transport x)
  with assms show ?thesis by simp
next
  case (ok resp')
  with assms show ?thesis by auto
next
  case (auth resp')
  with assms show ?thesis by auto
next
  case (rate_last resp')
  with assms show ?thesis by simp
next
  case (rate_badheader resp' x)
  with assms sleep_for_429_not_typed[OF rate_badheader(4)] show ?thesis
    by (auto simp add: attempt_429_badheader)
next
  case (rate_badsleep resp' d x)
  with assms time_sleep_not_typed[OF rate_badsleep(5)] show ?thesis
    by (auto simp add: attempt_429_badsleep)
next
  case (rate_retry resp' d)
  then show ?thesis by (simp add: attempt_429_retry)
next
  case (server_last resp')
  with assms show ?thesis by simp
next
  case (server_badsleep resp' x)
  with assms time_sleep_not_typed[OF server_badsleep(5)] show ?thesis
    by (auto simp add: attempt_5xx_badsleep)
next
  case (server_retry resp')
  then show ?thesis by (simp add: attempt_5xx_retry)
next
  case (other resp')
  with assms show ?thesis by auto
qed

text \<open>The world at the end of a call is the initial one after as many sends of the descriptor
  as there were attempts.\<close>

lemma request_exec_world:
  "case request_exec flt send req w of (out, w', st') \<Rightarrow>
     w' = ((\<lambda>u. snd (send u req)) ^^ attempts st') w"
proof -
  let ?I = "\<lambda>u st. u = ((\<lambda>u. snd (send u req)) ^^ attempts st) w"
  let ?Q = "\<lambda>(out::outcome) w1 st'. w1 = ((\<lambda>u. snd (send u req)) ^^ attempts st') w"
  have init: "?I w init_state" by (simp add: init_state_def)
  have step: "?I w1 st1" if "?I w0 st0" "attempt flt send req w0 st0 = Continue w1 st1"
    for w0 st0 w1 st1
    using attempt_Continue[OF that(2)] that(1) by auto
  have fin: "?Q out w1 st1" if "?I w0 st0" "attempt flt send req w0 st0 = Done out w1 st1"
    for w0 st0 out w1 st1
    using attempt_Done_frame[OF that(2)] that(1) by simp
  have "case request_loop flt send req w init_state of (out, w1, st1) \<Rightarrow> ?Q out w1 st1"
    by (rule request_loop_rule[where I = ?I and Q = ?Q, OF init step fin])
  then show ?thesis by (simp only: request_exec_def)
qed

text \<open>Every attempt but the last was followed by one sleep.\<close>

lemma request_exec_sleep_count:
  "case request_exec flt send req w of (out, w', st') \<Rightarrow>
     attempts st' - 1 \<le> length (slept st') \<and> length (slept st') \<le> attempts st'"
proof -
  let ?I = "\<lambda>(w::'a) st. length (slept st) = attempts st"
  let ?Q = "\<lambda>(out::outcome) (w1::'a) st'.
     attempts st' - 1 \<le> length (slept st') \<and> length (slept st') \<le> attempts st'"
  have init: "?I w init_state" by (simp add: init_state_def)
  have step: "?I w1 st1" if "?I w0 st0" "attempt flt send req w0 st0 = Continue w1 st1"
    for w0 st0 w1 st1
    using attempt_Continue[OF that(2)] that(1) by auto
  have fin: "?Q out w1 st1" if "?I w0 st0" "attempt flt send req w0 st0 = Done out w1 st1"
    for w0 st0 out w1 st1
    using attempt_Done_frame[OF that(2)] attempt_Done_logs[OF that(2)] that(1) by auto
  have "case request_loop flt send req w init_state of (out, w1, st1) \<Rightarrow> ?Q out w1 st1"
    by (rule request_loop_rule[where I = ?I and Q = ?Q, OF init step fin])
  then show ?thesis by (simp only: request_exec_def)
qed

text \<open>A \<open>Retry-After\<close> value that \<open>float\<close> rejects ends the call with its ValueError.\<close>

lemma retry_after_unparseable:
  assumes "fst (send w req) = Inr resp" and "status_code resp = 429" and "attempts st < 5"
    and "headers resp ''Retry-After'' = Some h" and "flt h = None"
  shows "request_loop flt send req w st =
           (Raise ValueError, snd (send w req),
            st\<lparr>attempts := attempts st + 1, sent := sent st @ [req],
               received := received st @ [resp]\<rparr>)"
proof -
  from assms(4,5) have "sleep_for_429 flt resp (backoff st) = Inl ValueError"
    by (simp add: sleep_for_429_def)
  with assms(1,2,3) show ?thesis
    by (subst request_loop.simps) (simp add: attempt_429_badheader)
qed

lemma sleep_for_429_wellformed:
  assumes "case headers resp ''Retry-After'' of None \<Rightarrow> True
           | Some h \<Rightarrow> (\<exists>d. flt h = Some d \<and> time_sleep d = None)"
    and "0 \<le> b" and "b \<le> 16"
  shows "\<exists>d. sleep_for_429 flt resp b = Inr d \<and> time_sleep d = None"
proof (cases "headers resp ''Retry-After''")
  case None
  from assms(2,3) have "b * 10 ^ 9 < 2 ^ 63" by simp
  with assms(2) None show ?thesis by (simp add: sleep_for_429_def not_less)
next
  case (Some h)
  with assms(1) show ?thesis by (auto simp add: sleep_for_429_def)
qed

text \<open>
  The retry ceiling where every \<open>Retry-After\<close> header, if there is one, converts to a
  delay that \<open>time.sleep\<close> accepts: six attempts, five sleeps, and then the typed error
  built from the sixth response.
\<close>

lemma retry_ceiling_wellformed:
  assumes all: "\<And>w. \<exists>resp. fst (send w req) = Inr resp
            \<and> (status_code resp = 429 \<or> 500 \<le> status_code resp \<and> status_code resp < 600)
            \<and> (case headers resp ''Retry-After'' of None \<Rightarrow> True
                | Some h \<Rightarrow> (\<exists>d. flt h = Some d \<and> time_sleep d = None))"
  shows "case request_exec flt send req w of (out, w', st') \<Rightarrow>
           attempts st' = 6 \<and> length (sent st') = 6 \<and> length (received st') = 6
           \<and> length (slept st') = 5
           \<and> out = Raise (let r = last (received st') in
                 if status_code r = 429
                 then RateLimitError (status_code r) (fst (parse_error r)) (snd (parse_error r))
                 else RetryableError (status_code r) (fst (parse_error r)) (snd (parse_error r)))"
proof -
  let ?I = "\<lambda>(w::'a) st. attempts st \<le> 5 \<and> 0 \<le> backoff st \<and> backoff st \<le> 16
              \<and> length (sent st) = attempts st
              \<and> length (received st) = attempts st \<and> length (slept st) = attempts st"
  let ?Q = "\<lambda>out (w1::'a) st'.
           attempts st' = 6 \<and> length (sent st') = 6 \<and> length (received st') = 6
           \<and> length (slept st') = 5
           \<and> out = Raise (let r = last (received st') in
                 if status_code r = 429
                 then RateLimitError (status_code r) (fst (parse_error r)) (snd (parse_error r))
                 else RetryableError (status_code r) (fst (parse_error r)) (snd (parse_error r)))"
  have init: "?I w init_state" by (simp add: init_state_def)
  have step: "?I w1 st1" if "?I w0 st0" "attempt flt send req w0 st0 = Continue w1 st1"
    for w0 st0 w1 st1
    using attempt_Continue[OF that(2)] that(1) by (auto simp add: max_backoff_def)
  have fin: "?Q out w1 st1" if "?I w0 st0" "attempt flt send req w0 st0 = Done out w1 st1"
    for w0 st0 out w1 st1
  proof -
    from all[of w0] obtain resp where r: "fst (send w0 req) = Inr resp"
      and s: "status_code resp = 429 \<or> 500 \<le> status_code resp \<and> status_code resp < 600"
      and h: "case headers resp ''Retry-After'' of None \<Rightarrow> True
                | Some h \<Rightarrow> (\<exists>d. flt h = Some d \<and> time_sleep d = None)"
      by blast
    from that(1) have b: "0 \<le> backoff st0" "backoff st0 \<le> 16" by simp_all
    have five: "attempts st0 = 5"
    proof (rule ccontr)
      assume "attempts st0 \<noteq> 5"
      with that(1) have lt: "attempts st0 < 5" by simp
      show False
      proof (cases "status_code resp = 429")
        case True
        from sleep_for_429_wellformed[OF h b] obtain d where
          d: "sleep_for_429 flt resp (backoff st0) = Inr d" "time_sleep d = None" by blast
        from that(2) r True lt d show False by (simp add: attempt_429_retry)
      next
        case False
        with s have s5: "500 \<le> status_code resp" "status_code resp < 600" by simp_all
        from b have "backoff st0 * 10 ^ 9 < 2 ^ 63" by simp
        with b have t: "time_sleep (Finite (backoff st0)) = None" by (simp add: not_less)
        from that(2) r s5 lt t show False by (simp add: attempt_5xx_retry)
      qed
    qed
    then have ge: "5 \<le> attempts st0" by simp
    show ?thesis
    proof (cases "status_code resp = 429")
      case True
      from that(2) r True ge
      have "out = Raise (RateLimitError (status_code resp) (fst (parse_error resp))
                                        (snd (parse_error resp)))"
        and "st1 = st0\<lparr>attempts := attempts st0 + 1, sent := sent st0 @ [req],
                         received := received st0 @ [resp]\<rparr>"
        by (simp_all add: attempt_429_last)
      with that(1) five True show ?thesis by (simp add: Let_def)
    next
      case False
      with s have s5: "500 \<le> status_code resp" "status_code resp < 600" by simp_all
      from that(2) r s5 ge
      have "out = Raise (RetryableError (status_code resp) (fst (parse_error resp))
                                        (snd (parse_error resp)))"
        and "st1 = st0\<lparr>attempts := attempts st0 + 1, sent := sent st0 @ [req],
                         received := received st0 @ [resp]\<rparr>"
        by (simp_all add: attempt_5xx_last)
      with that(1) five False show ?thesis by (simp add: Let_def)
    qed
  qed
  have "case request_loop flt send req w init_state of (out, w1, st1) \<Rightarrow> ?Q out w1 st1"
    by (rule request_loop_rule[where I = ?I and Q = ?Q, OF init step fin])
  then show ?thesis by (simp only: request_exec_def)
qed

section \<open>Sample calls\<close>

text \<open>Runs of the method against scripted transports, computed by the simplifier.\<close>

lemmas run_defs = request_exec_def request_loop.simps attempt_def init_state_def Let_def
  parse_error_def try_parse_def py_or_def extract_reason_def sleep_for_429_def float_digits_def
  max_backoff_def resp_401_def resp_429_def resp_plain_def resp_200_rows_def resp_403_def
  resp_200_list_def

lemma run_401:
  "request_exec float_digits fake_request sites_list_request [Inr resp_401] =
     (Raise (AuthError [Lit ''Unauthorized: '', Fmt (PStr ''Unauthorized'')]), [],
      \<lparr>attempts = 1, backoff = 1, sent = [sites_list_request], received = [resp_401], slept = []\<rparr>)"
  by (simp add: run_defs)

lemma run_403:
  "request_exec float_digits fake_request sites_list_request [Inr resp_403] =
     (Raise (ApiError 403 (PStr ''Forbidden'') (PStr ''forbidden'')), [],
      \<lparr>attempts = 1, backoff = 1, sent = [sites_list_request], received = [resp_403], slept = []\<rparr>)"
  by (simp add: run_defs)

lemma run_404_plain:
  "request_exec float_digits fake_request sites_list_request [Inr (resp_plain 404 ''Not Found'')] =
     (Raise (ApiError 404 (PStr ''Not Found'') PNone), [],
      \<lparr>attempts = 1, backoff = 1, sent = [sites_list_request],
       received = [resp_plain 404 ''Not Found''], slept = []\<rparr>)"
  by (simp add: run_defs)

lemma run_401_plain:
  "request_exec float_digits fake_request sites_list_request [Inr (resp_plain 401 ''token expired'')] =
     (Raise (AuthError [Lit ''Unauthorized: '', Fmt (PStr ''token expired'')]), [],
      \<lparr>attempts = 1, backoff = 1, sent = [sites_list_request],
       received = [resp_plain 401 ''token expired''], slept = []\<rparr>)"
  by (simp add: run_defs)

lemma run_retry_then_ok:
  "request_exec float_digits fake_request sites_list_request
     [Inr (resp_429 (Some ''7'')), Inr (resp_plain 503 ''Service Unavailable''), Inr resp_200_rows] =
     (Return (PDict [(''rows'', PList []), (''responseAggregationType'', PStr ''auto'')]), [],
      \<lparr>attempts = 3, backoff = 4,
       sent = [sites_list_request, sites_list_request, sites_list_request],
       received = [resp_429 (Some ''7''), resp_plain 503 ''Service Unavailable'', resp_200_rows],
       slept = [Finite 7, Finite 2]\<rparr>)"
  by (simp add: run_defs)

lemma run_six_503:
  "request_exec float_digits fake_request sites_list_request
     (replicate 5 (Inr (resp_429 None)) @ [Inr (resp_plain 503 ''Service Unavailable'')]) =
     (Raise (RetryableError 503 (PStr ''Service Unavailable'') PNone), [],
      \<lparr>attempts = 6, backoff = 16,
       sent = replicate 6 sites_list_request,
       received = replicate 5 (resp_429 None) @ [resp_plain 503 ''Service Unavailable''],
       slept = [Finite 1, Finite 2, Finite 4, Finite 8, Finite 16]\<rparr>)"
  by (simp add: run_defs numeral_eq_Suc)

lemma run_bad_header:
  "request_exec float_digits fake_request sites_list_request
     [Inr (resp_429 (Some ''Wed, 21 Oct 2015 07:28:00 GMT'')), Inr resp_200_rows] =
     (Raise ValueError, [Inr resp_200_rows],
      \<lparr>attempts = 1, backoff = 1, sent = [sites_list_request],
       received = [resp_429 (Some ''Wed, 21 Oct 2015 07:28:00 GMT'')], slept = []\<rparr>)"
  by (simp add: run_defs)

section \<open>The claims\<close>

text \<open>
  Claim C4. A pass whose response has status 401 raises \<open>AuthError\<close> at once, whatever
  the attempt count and backoff were: the call ends in that pass with exactly one more
  request sent, no sleep and no further attempt.
\<close>

theorem unauthorized_is_immediate:
  assumes "fst (send w req) = Inr resp" and "status_code resp = 401"
  shows "request_loop flt send req w st =
           (Raise (AuthError [Lit ''Unauthorized: '', Fmt (fst (parse_error resp))]),
            snd (send w req),
            st\<lparr>attempts := attempts st + 1, sent := sent st @ [req],
               received := received st @ [resp]\<rparr>)
       \<and> sent (snd (snd (request_loop flt send req w st))) = sent st @ [req]
       \<and> slept (snd (snd (request_loop flt send req w st))) = slept st"
  by (subst (1 2 3) request_loop.simps) (simp add: attempt_401 assms)

text \<open>A 401 as the first reply: the second reply of the script is never asked for.\<close>

theorem unauthorized_is_immediate_witness:
  "fst (fake_request [Inr resp_401, Inr resp_200_rows] sites_list_request) = Inr resp_401
   \<and> status_code resp_401 = 401
   \<and> request_loop float_digits fake_request sites_list_request [Inr resp_401, Inr resp_200_rows] init_state =
       (Raise (AuthError [Lit ''Unauthorized: '', Fmt (PStr ''Unauthorized'')]), [Inr resp_200_rows],
        \<lparr>attempts = 1, backoff = 1, sent = [sites_list_request], received = [resp_401], slept = []\<rparr>)"
proof -
  have h1: "fst (fake_request [Inr resp_401, Inr resp_200_rows] sites_list_request) = Inr resp_401"
    by simp
  have h2: "status_code resp_401 = 401" by (simp add: resp_401_def)
  have p: "fst (parse_error resp_401) = PStr ''Unauthorized''"
    by (simp add: run_defs)
  from unauthorized_is_immediate[where send = fake_request and w = "[Inr resp_401, Inr resp_200_rows]"
      and req = sites_list_request and resp = resp_401 and flt = float_digits and st = init_state,
      OF h1 h2]
  show ?thesis using h1 h2 by (simp add: p init_state_def)
qed

text \<open>
  Claim C7, as amended. A pass whose response has a status in [200,300) ends the call:
  with an empty body (as for 204 No Content) it returns the empty mapping; with a
  non-empty body that \<open>resp.json()\<close> decodes it returns the decoded value as it is,
  which is a mapping when the body is a JSON object; with a non-empty body that
  \<open>resp.json()\<close> rejects it raises the decoder's exception.
\<close>

theorem success_result:
  assumes "fst (send w req) = Inr resp" and "200 \<le> status_code resp" and "status_code resp < 300"
  shows "request_loop flt send req w st =
           ((if content resp = [] then Return (PDict [])
             else (case json resp of None \<Rightarrow> Raise JSONDecodeError | Some v \<Rightarrow> Return v)),
            snd (send w req),
            st\<lparr>attempts := attempts st + 1, sent := sent st @ [req],
               received := received st @ [resp]\<rparr>)"
  by (subst request_loop.simps) (simp add: attempt_2xx assms)

text \<open>A 204 with an empty body, and a 200 with the body of the test suite.\<close>

theorem success_result_witness:
  "fst (fake_request [Inr (resp_plain 204 [])] sites_list_request) = Inr (resp_plain 204 [])
   \<and> 200 \<le> status_code (resp_plain 204 []) \<and> status_code (resp_plain 204 []) < 300
   \<and> request_loop float_digits fake_request sites_list_request [Inr (resp_plain 204 [])] init_state
       = (Return (PDict []), [],
          \<lparr>attempts = 1, backoff = 1, sent = [sites_list_request],
           received = [resp_plain 204 []], slept = []\<rparr>)
   \<and> fst (fake_request [Inr resp_200_rows] sites_list_request) = Inr resp_200_rows
   \<and> 200 \<le> status_code resp_200_rows \<and> status_code resp_200_rows < 300
   \<and> request_loop float_digits fake_request sites_list_request [Inr resp_200_rows] init_state
       = (Return (PDict [(''rows'', PList []), (''responseAggregationType'', PStr ''auto'')]), [],
          \<lparr>attempts = 1, backoff = 1, sent = [sites_list_request],
           received = [resp_200_rows], slept = []\<rparr>)"
proof -
  have a1: "fst (fake_request [Inr (resp_plain 204 [])] sites_list_request) = Inr (resp_plain 204 [])"
    by simp
  have a2: "200 \<le> status_code (resp_plain 204 [])" "status_code (resp_plain 204 []) < 300"
    by (simp_all add: resp_plain_def)
  have b1: "fst (fake_request [Inr resp_200_rows] sites_list_request) = Inr resp_200_rows"
    by simp
  have b2: "200 \<le> status_code resp_200_rows" "status_code resp_200_rows < 300"
    by (simp_all add: resp_200_rows_def)
  from success_result[where send = fake_request and w = "[Inr (resp_plain 204 [])]"
      and req = sites_list_request and resp = "resp_plain 204 []" and flt = float_digits
      and st = init_state, OF a1 a2]
  have a: "request_loop float_digits fake_request sites_list_request [Inr (resp_plain 204 [])] init_state
       = (Return (PDict []), [],
          \<lparr>attempts = 1, backoff = 1, sent = [sites_list_request],
           received = [resp_plain 204 []], slept = []\<rparr>)"
    by (simp add: init_state_def) (simp add: resp_plain_def)
  from success_result[where send = fake_request and w = "[Inr resp_200_rows]"
      and req = sites_list_request and resp = resp_200_rows and flt = float_digits
      and st = init_state, OF b1 b2]
  have b: "request_loop float_digits fake_request sites_list_request [Inr resp_200_rows] init_state
       = (Return (PDict [(''rows'', PList []), (''responseAggregationType'', PStr ''auto'')]), [],
          \<lparr>attempts = 1, backoff = 1, sent = [sites_list_request],
           received = [resp_200_rows], slept = []\<rparr>)"
    by (simp add: init_state_def) (simp add: resp_200_rows_def)
  from a1 a2 a b1 b2 b show ?thesis by blast
qed

text \<open>
  Claim C7 as stated fails on two responses with status 200 and a non-empty body: the
  body \<open>[1, 2]\<close> is returned as a list, which is not a mapping, and an HTML page
  raises instead of returning.
\<close>

theorem success_body_list_returned:
  "200 \<le> status_code resp_200_list \<and> status_code resp_200_list < 300
   \<and> content resp_200_list \<noteq> []
   \<and> request_exec float_digits fake_request sites_list_request [Inr resp_200_list] =
       (Return (PList [PInt 1, PInt 2]), [],
        \<lparr>attempts = 1, backoff = 1, sent = [sites_list_request], received = [resp_200_list],
         slept = []\<rparr>)
   \<and> \<not> is_dict (PList [PInt 1, PInt 2])
   \<and> 200 \<le> status_code (resp_plain 200 ''<html>ok</html>'')
   \<and> status_code (resp_plain 200 ''<html>ok</html>'') < 300
   \<and> content (resp_plain 200 ''<html>ok</html>'') \<noteq> []
   \<and> request_exec float_digits fake_request sites_list_request
        [Inr (resp_plain 200 ''<html>ok</html>'')] =
       (Raise JSONDecodeError, [],
        \<lparr>attempts = 1, backoff = 1, sent = [sites_list_request],
         received = [resp_plain 200 ''<html>ok</html>''], slept = []\<rparr>)"
  by (simp add: run_defs)

text \<open>
  Claim C10. A response with a status in [200,300) whose non-empty body is not JSON makes
  the call raise the decoder's exception, which is none of the four typed errors; nothing
  is returned.
\<close>

theorem success_body_not_json_raises:
  assumes "fst (send w req) = Inr resp" and "200 \<le> status_code resp" and "status_code resp < 300"
    and "content resp \<noteq> []" and "json resp = None"
  shows "request_loop flt send req w st =
           (Raise JSONDecodeError, snd (send w req),
            st\<lparr>attempts := attempts st + 1, sent := sent st @ [req],
               received := received st @ [resp]\<rparr>)
       \<and> \<not> is_gsc_error JSONDecodeError"
  by (subst request_loop.simps) (simp add: attempt_2xx assms)

text \<open>A 200 that carries an HTML page.\<close>

theorem success_body_not_json_raises_witness:
  "fst (fake_request [Inr (resp_plain 200 ''<html>ok</html>'')] sites_list_request)
      = Inr (resp_plain 200 ''<html>ok</html>'')
   \<and> 200 \<le> status_code (resp_plain 200 ''<html>ok</html>'')
   \<and> status_code (resp_plain 200 ''<html>ok</html>'') < 300
   \<and> content (resp_plain 200 ''<html>ok</html>'') \<noteq> []
   \<and> json (resp_plain 200 ''<html>ok</html>'') = None
   \<and> fst (request_loop float_digits fake_request sites_list_request
            [Inr (resp_plain 200 ''<html>ok</html>'')] init_state) = Raise JSONDecodeError"
proof -
  let ?r = "resp_plain 200 ''<html>ok</html>''"
  have h1: "fst (fake_request [Inr ?r] sites_list_request) = Inr ?r" by simp
  have h2: "200 \<le> status_code ?r" "status_code ?r < 300" "content ?r \<noteq> []" "json ?r = None"
    by (simp_all add: resp_plain_def)
  from success_body_not_json_raises[where send = fake_request and w = "[Inr ?r]"
      and req = sites_list_request and resp = ?r and flt = float_digits and st = init_state,
      OF h1 h2]
  have "fst (request_loop float_digits fake_request sites_list_request [Inr ?r] init_state)
          = Raise JSONDecodeError" by simp
  with h1 h2 show ?thesis by blast
qed

text \<open>
  Claim C2. The error raised for a response outside [200,300) is fixed by its status
  code. A 401 raises \<open>AuthError\<close>; any status other than 401, 429 and 500 to 599
  raises \<open>ApiError\<close>; a 429 raises \<open>RateLimitError\<close> and a status from 500 to 599
  raises \<open>RetryableError\<close> once five attempts have gone before. In each case the call
  ends in that pass, with one request sent, no sleep and no further attempt. While fewer
  than five attempts have gone before, a 429 or 5xx response gives no typed error. Seen
  from the whole call: a typed error that leaves it has the class that the status of the
  last response fixes, whatever came before, and after that response nothing is sent and
  no sleep is made.
\<close>

theorem error_category_from_status:
  assumes "fst (send w req) = Inr resp"
    and "\<not> (200 \<le> status_code resp \<and> status_code resp < 300)"
  shows "(status_code resp = 401 \<longrightarrow>
            request_loop flt send req w st =
              (Raise (AuthError [Lit ''Unauthorized: '', Fmt (fst (parse_error resp))]),
               snd (send w req),
               st\<lparr>attempts := attempts st + 1, sent := sent st @ [req],
                  received := received st @ [resp]\<rparr>))
       \<and> (status_code resp = 429 \<and> 5 \<le> attempts st \<longrightarrow>
            request_loop flt send req w st =
              (Raise (RateLimitError 429 (fst (parse_error resp)) (snd (parse_error resp))),
               snd (send w req),
               st\<lparr>attempts := attempts st + 1, sent := sent st @ [req],
                  received := received st @ [resp]\<rparr>))
       \<and> (500 \<le> status_code resp \<and> status_code resp < 600 \<and> 5 \<le> attempts st \<longrightarrow>
            request_loop flt send req w st =
              (Raise (RetryableError (status_code resp) (fst (parse_error resp)) (snd (parse_error resp))),
               snd (send w req),
               st\<lparr>attempts := attempts st + 1, sent := sent st @ [req],
                  received := received st @ [resp]\<rparr>))
       \<and> (status_code resp \<noteq> 401 \<and> status_code resp \<noteq> 429
            \<and> \<not> (500 \<le> status_code resp \<and> status_code resp < 600) \<longrightarrow>
            request_loop flt send req w st =
              (Raise (ApiError (status_code resp) (fst (parse_error resp)) (snd (parse_error resp))),
               snd (send w req),
               st\<lparr>attempts := attempts st + 1, sent := sent st @ [req],
                  received := received st @ [resp]\<rparr>))
       \<and> ((status_code resp = 429 \<or> 500 \<le> status_code resp \<and> status_code resp < 600)
            \<and> attempts st < 5 \<longrightarrow>
            (\<forall>e w1 st1. is_gsc_error e \<longrightarrow> attempt flt send req w st \<noteq> Done (Raise e) w1 st1))
       \<and> (\<forall>e w' st'. request_exec flt send req w = (Raise e, w', st') \<and> is_gsc_error e \<longrightarrow>
            received st' \<noteq> [] \<and> length (sent st') = length (received st')
            \<and> length (slept st') + 1 = length (received st')
            \<and> (let s = status_code (last (received st')) in
                 \<not> (200 \<le> s \<and> s < 300)
                 \<and> (if s = 401 then \<exists>ps. e = AuthError ps
                     else if s = 429 then (\<exists>m r. e = RateLimitError s m r) \<and> attempts st' = 6
                     else if 500 \<le> s \<and> s < 600 then (\<exists>m r. e = RetryableError s m r) \<and> attempts st' = 6
                     else \<exists>m r. e = ApiError s m r)))"
proof -
  have c1: "status_code resp = 401 \<longrightarrow>
            request_loop flt send req w st =
              (Raise (AuthError [Lit ''Unauthorized: '', Fmt (fst (parse_error resp))]),
               snd (send w req),
               st\<lparr>attempts := attempts st + 1, sent := sent st @ [req],
                  received := received st @ [resp]\<rparr>)"
    by (subst request_loop.simps) (simp add: attempt_401 assms(1))
  have c2: "status_code resp = 429 \<and> 5 \<le> attempts st \<longrightarrow>
            request_loop flt send req w st =
              (Raise (RateLimitError 429 (fst (parse_error resp)) (snd (parse_error resp))),
               snd (send w req),
               st\<lparr>attempts := attempts st + 1, sent := sent st @ [req],
                  received := received st @ [resp]\<rparr>)"
    by (subst request_loop.simps) (simp add: attempt_429_last assms(1))
  have c3: "500 \<le> status_code resp \<and> status_code resp < 600 \<and> 5 \<le> attempts st \<longrightarrow>
            request_loop flt send req w st =
              (Raise (RetryableError (status_code resp) (fst (parse_error resp)) (snd (parse_error resp))),
               snd (send w req),
               st\<lparr>attempts := attempts st + 1, sent := sent st @ [req],
                  received := received st @ [resp]\<rparr>)"
    by (subst request_loop.simps) (simp add: attempt_5xx_last assms(1))
  have c4: "status_code resp \<noteq> 401 \<and> status_code resp \<noteq> 429
            \<and> \<not> (500 \<le> status_code resp \<and> status_code resp < 600) \<longrightarrow>
            request_loop flt send req w st =
              (Raise (ApiError (status_code resp) (fst (parse_error resp)) (snd (parse_error resp))),
               snd (send w req),
               st\<lparr>attempts := attempts st + 1, sent := sent st @ [req],
                  received := received st @ [resp]\<rparr>)"
    using assms(2) by (subst request_loop.simps) (simp add: attempt_other assms(1))
  have c5: "(status_code resp = 429 \<or> 500 \<le> status_code resp \<and> status_code resp < 600)
            \<and> attempts st < 5 \<longrightarrow>
            (\<forall>e w1 st1. is_gsc_error e \<longrightarrow> attempt flt send req w st \<noteq> Done (Raise e) w1 st1)"
    using attempt_in_budget_not_typed[where send = send and w = w and req = req and resp = resp
        and st = st and flt = flt] assms(1)
    by blast
  have c6: "\<forall>e w' st'. request_exec flt send req w = (Raise e, w', st') \<and> is_gsc_error e \<longrightarrow>
            received st' \<noteq> [] \<and> length (sent st') = length (received st')
            \<and> length (slept st') + 1 = length (received st')
            \<and> (let s = status_code (last (received st')) in
                 \<not> (200 \<le> s \<and> s < 300)
                 \<and> (if s = 401 then \<exists>ps. e = AuthError ps
                     else if s = 429 then (\<exists>m r. e = RateLimitError s m r) \<and> attempts st' = 6
                     else if 500 \<le> s \<and> s < 600 then (\<exists>m r. e = RetryableError s m r) \<and> attempts st' = 6
                     else \<exists>m r. e = ApiError s m r))"
  proof (intro allI impI)
    fix e w' st'
    assume h: "request_exec flt send req w = (Raise e, w', st') \<and> is_gsc_error e"
    then have h1: "request_exec flt send req w = (Raise e, w', st')" and h2: "is_gsc_error e"
      by simp_all
    note t = request_exec_typed_error[OF h1 h2]
    from t have a: "received st' \<noteq> []" "length (sent st') = length (received st')"
      "length (slept st') + 1 = length (received st')"
      "\<not> (200 \<le> status_code (last (received st')) \<and> status_code (last (received st')) < 300)"
      by blast+
    from t have six: "status_code (last (received st')) = 429
            \<or> 500 \<le> status_code (last (received st')) \<and> status_code (last (received st')) < 600
           \<longrightarrow> attempts st' = 6" by blast
    from t have eq: "e = (let resp = last (received st') in
                if status_code resp = 401
                  then AuthError [Lit ''Unauthorized: '', Fmt (fst (parse_error resp))]
                else if status_code resp = 429
                  then RateLimitError (status_code resp) (fst (parse_error resp)) (snd (parse_error resp))
                else if 500 \<le> status_code resp \<and> status_code resp < 600
                  then RetryableError (status_code resp) (fst (parse_error resp)) (snd (parse_error resp))
                else ApiError (status_code resp) (fst (parse_error resp)) (snd (parse_error resp)))"
      by blast
    from a six eq show "received st' \<noteq> [] \<and> length (sent st') = length (received st')
            \<and> length (slept st') + 1 = length (received st')
            \<and> (let s = status_code (last (received st')) in
                 \<not> (200 \<le> s \<and> s < 300)
                 \<and> (if s = 401 then \<exists>ps. e = AuthError ps
                     else if s = 429 then (\<exists>m r. e = RateLimitError s m r) \<and> attempts st' = 6
                     else if 500 \<le> s \<and> s < 600 then (\<exists>m r. e = RetryableError s m r) \<and> attempts st' = 6
                     else \<exists>m r. e = ApiError s m r))"
      by (auto simp add: Let_def)
  qed
  from c1 c2 c3 c4 c5 c6 show ?thesis by blast
qed

text \<open>A 403 as the first reply: \<open>ApiError\<close> at once, the second reply never asked for.\<close>

theorem error_category_from_status_witness:
  "fst (fake_request [Inr resp_403, Inr resp_200_rows] sites_list_request) = Inr resp_403
   \<and> \<not> (200 \<le> status_code resp_403 \<and> status_code resp_403 < 300)
   \<and> status_code resp_403 \<noteq> 401 \<and> status_code resp_403 \<noteq> 429
   \<and> \<not> (500 \<le> status_code resp_403 \<and> status_code resp_403 < 600)
   \<and> request_loop float_digits fake_request sites_list_request [Inr resp_403, Inr resp_200_rows]
        init_state =
       (Raise (ApiError 403 (PStr ''Forbidden'') (PStr ''forbidden'')), [Inr resp_200_rows],
        \<lparr>attempts = 1, backoff = 1, sent = [sites_list_request], received = [resp_403], slept = []\<rparr>)"
proof -
  have h1: "fst (fake_request [Inr resp_403, Inr resp_200_rows] sites_list_request) = Inr resp_403"
    by simp
  have h2: "\<not> (200 \<le> status_code resp_403 \<and> status_code resp_403 < 300)"
    by (simp add: resp_403_def)
  have h3: "status_code resp_403 \<noteq> 401 \<and> status_code resp_403 \<noteq> 429
            \<and> \<not> (500 \<le> status_code resp_403 \<and> status_code resp_403 < 600)"
    by (simp add: resp_403_def)
  have p: "parse_error resp_403 = (PStr ''Forbidden'', PStr ''forbidden'')"
    by (simp add: run_defs)
  from error_category_from_status[where send = fake_request and w = "[Inr resp_403, Inr resp_200_rows]"
      and req = sites_list_request and resp = resp_403 and flt = float_digits and st = init_state,
      OF h1 h2] h3
  have "request_loop float_digits fake_request sites_list_request [Inr resp_403, Inr resp_200_rows]
        init_state =
       (Raise (ApiError (status_code resp_403) (fst (parse_error resp_403)) (snd (parse_error resp_403))),
        snd (fake_request [Inr resp_403, Inr resp_200_rows] sites_list_request),
        init_state\<lparr>attempts := attempts init_state + 1, sent := sent init_state @ [sites_list_request],
                  received := received init_state @ [resp_403]\<rparr>)"
    by blast
  then have "request_loop float_digits fake_request sites_list_request [Inr resp_403, Inr resp_200_rows]
        init_state =
       (Raise (ApiError 403 (PStr ''Forbidden'') (PStr ''forbidden'')), [Inr resp_200_rows],
        \<lparr>attempts = 1, backoff = 1, sent = [sites_list_request], received = [resp_403], slept = []\<rparr>)"
    by (simp add: p init_state_def) (simp add: resp_403_def)
  with h1 h2 h3 show ?thesis by blast
qed

text \<open>
  Claim C9, as amended. \<open>RateLimitError\<close>, \<open>RetryableError\<close> and \<open>ApiError\<close>
  carry the status code, the extracted message and the extracted reason of the last
  response. \<open>AuthError\<close>, raised on 401, carries only the text \<open>Unauthorized: \<close>
  followed by the extracted message: it has no status and no reason.
\<close>

theorem typed_error_payload:
  assumes "request_exec flt send req w = (Raise e, w', st')" and "is_gsc_error e"
  shows "received st' \<noteq> []
       \<and> (let r = last (received st') in
            if status_code r = 401
            then e = AuthError [Lit ''Unauthorized: '', Fmt (fst (parse_error r))]
                 \<and> exn_status e = None \<and> exn_reason e = None
            else exn_status e = Some (status_code r)
                 \<and> exn_message e = [Fmt (fst (parse_error r))]
                 \<and> exn_reason e = Some (snd (parse_error r)))"
  using request_exec_typed_error[OF assms] by (simp add: Let_def)

text \<open>A 403 with a reason in its body.\<close>

theorem typed_error_payload_witness:
  "request_exec float_digits fake_request sites_list_request [Inr resp_403] =
     (Raise (ApiError 403 (PStr ''Forbidden'') (PStr ''forbidden'')), [],
      \<lparr>attempts = 1, backoff = 1, sent = [sites_list_request], received = [resp_403], slept = []\<rparr>)
   \<and> is_gsc_error (ApiError 403 (PStr ''Forbidden'') (PStr ''forbidden''))
   \<and> exn_status (ApiError 403 (PStr ''Forbidden'') (PStr ''forbidden'')) = Some (status_code resp_403)
   \<and> exn_message (ApiError 403 (PStr ''Forbidden'') (PStr ''forbidden'')) = [Fmt (fst (parse_error resp_403))]
   \<and> exn_reason (ApiError 403 (PStr ''Forbidden'') (PStr ''forbidden'')) = Some (snd (parse_error resp_403))"
proof -
  have g: "is_gsc_error (ApiError 403 (PStr ''Forbidden'') (PStr ''forbidden''))" by simp
  have s: "status_code resp_403 \<noteq> 401" by (simp add: resp_403_def)
  from typed_error_payload[OF run_403 g] s
  have "exn_status (ApiError 403 (PStr ''Forbidden'') (PStr ''forbidden'')) = Some (status_code resp_403)
   \<and> exn_message (ApiError 403 (PStr ''Forbidden'') (PStr ''forbidden'')) = [Fmt (fst (parse_error resp_403))]
   \<and> exn_reason (ApiError 403 (PStr ''Forbidden'') (PStr ''forbidden'')) = Some (snd (parse_error resp_403))"
    by (simp add: Let_def)
  with run_403 g show ?thesis by blast
qed

text \<open>
  Claim C9 as stated fails on the 401 of the test suite: the \<open>AuthError\<close> raised has
  neither a status code nor a reason.
\<close>

theorem auth_error_has_no_status:
  "request_exec float_digits fake_request sites_list_request [Inr resp_401] =
     (Raise (AuthError [Lit ''Unauthorized: '', Fmt (PStr ''Unauthorized'')]), [],
      \<lparr>attempts = 1, backoff = 1, sent = [sites_list_request], received = [resp_401], slept = []\<rparr>)
   \<and> exn_status (AuthError [Lit ''Unauthorized: '', Fmt (PStr ''Unauthorized'')]) = None
   \<and> exn_reason (AuthError [Lit ''Unauthorized: '', Fmt (PStr ''Unauthorized'')]) = None"
  using run_401 by simp

text \<open>A body that \<open>resp.json()\<close> rejects gives the raw text and no reason.\<close>

lemma parse_error_not_json: "json resp = None \<Longrightarrow> parse_error resp = (PStr (text_of resp), PNone)"
  by (simp add: parse_error_def try_parse_def)

text \<open>
  Claim C6, as amended. For a response outside [200,300) whose body is not JSON, the
  extraction gives the raw text as message and \<open>None\<close> as reason, and the error that
  this response ends the call with is the typed one: \<open>RateLimitError\<close>,
  \<open>RetryableError\<close> (both once the retries are used up) and \<open>ApiError\<close> carry
  the raw text as message and \<open>None\<close> as reason, while the \<open>AuthError\<close> of a 401
  carries \<open>Unauthorized: \<close> followed by the raw text.
\<close>

theorem error_body_not_json:
  assumes "fst (send w req) = Inr resp" and "json resp = None"
    and "\<not> (200 \<le> status_code resp \<and> status_code resp < 300)"
  shows "parse_error resp = (PStr (text_of resp), PNone)
       \<and> (status_code resp = 401 \<longrightarrow>
            fst (request_loop flt send req w st)
              = Raise (AuthError [Lit ''Unauthorized: '', Fmt (PStr (text_of resp))]))
       \<and> (status_code resp = 429 \<and> 5 \<le> attempts st \<longrightarrow>
            fst (request_loop flt send req w st)
              = Raise (RateLimitError 429 (PStr (text_of resp)) PNone))
       \<and> (500 \<le> status_code resp \<and> status_code resp < 600 \<and> 5 \<le> attempts st \<longrightarrow>
            fst (request_loop flt send req w st)
              = Raise (RetryableError (status_code resp) (PStr (text_of resp)) PNone))
       \<and> (status_code resp \<noteq> 401 \<and> status_code resp \<noteq> 429
            \<and> \<not> (500 \<le> status_code resp \<and> status_code resp < 600) \<longrightarrow>
            fst (request_loop flt send req w st)
              = Raise (ApiError (status_code resp) (PStr (text_of resp)) PNone))"
proof -
  note p = parse_error_not_json[OF assms(2)]
  have c1: "status_code resp = 401 \<longrightarrow>
            fst (request_loop flt send req w st)
              = Raise (AuthError [Lit ''Unauthorized: '', Fmt (PStr (text_of resp))])"
    by (subst request_loop.simps) (simp add: attempt_401 assms(1) p)
  have c2: "status_code resp = 429 \<and> 5 \<le> attempts st \<longrightarrow>
            fst (request_loop flt send req w st)
              = Raise (RateLimitError 429 (PStr (text_of resp)) PNone)"
    by (subst request_loop.simps) (simp add: attempt_429_last assms(1) p)
  have c3: "500 \<le> status_code resp \<and> status_code resp < 600 \<and> 5 \<le> attempts st \<longrightarrow>
            fst (request_loop flt send req w st)
              = Raise (RetryableError (status_code resp) (PStr (text_of resp)) PNone)"
    by (subst request_loop.simps) (simp add: attempt_5xx_last assms(1) p)
  have c4: "status_code resp \<noteq> 401 \<and> status_code resp \<noteq> 429
            \<and> \<not> (500 \<le> status_code resp \<and> status_code resp < 600) \<longrightarrow>
            fst (request_loop flt send req w st)
              = Raise (ApiError (status_code resp) (PStr (text_of resp)) PNone)"
    using assms(3) by (subst request_loop.simps) (simp add: attempt_other assms(1) p)
  from p c1 c2 c3 c4 show ?thesis by blast
qed

text \<open>A 404 with a plain-text body.\<close>

theorem error_body_not_json_witness:
  "fst (fake_request [Inr (resp_plain 404 ''Not Found'')] sites_list_request)
      = Inr (resp_plain 404 ''Not Found'')
   \<and> json (resp_plain 404 ''Not Found'') = None
   \<and> \<not> (200 \<le> status_code (resp_plain 404 ''Not Found'') \<and> status_code (resp_plain 404 ''Not Found'') < 300)
   \<and> status_code (resp_plain 404 ''Not Found'') \<noteq> 401 \<and> status_code (resp_plain 404 ''Not Found'') \<noteq> 429
   \<and> \<not> (500 \<le> status_code (resp_plain 404 ''Not Found'') \<and> status_code (resp_plain 404 ''Not Found'') < 600)
   \<and> fst (request_loop float_digits fake_request sites_list_request
            [Inr (resp_plain 404 ''Not Found'')] init_state)
       = Raise (ApiError 404 (PStr ''Not Found'') PNone)"
proof -
  let ?r = "resp_plain 404 ''Not Found''"
  have h1: "fst (fake_request [Inr ?r] sites_list_request) = Inr ?r" by simp
  have h2: "json ?r = None" by (simp add: resp_plain_def)
  have h3: "\<not> (200 \<le> status_code ?r \<and> status_code ?r < 300)" by (simp add: resp_plain_def)
  have h4: "status_code ?r \<noteq> 401 \<and> status_code ?r \<noteq> 429
            \<and> \<not> (500 \<le> status_code ?r \<and> status_code ?r < 600)" by (simp add: resp_plain_def)
  from error_body_not_json[where send = fake_request and w = "[Inr ?r]"
      and req = sites_list_request and resp = ?r and flt = float_digits and st = init_state,
      OF h1 h2 h3] h4
  have "fst (request_loop float_digits fake_request sites_list_request [Inr ?r] init_state)
       = Raise (ApiError (status_code ?r) (PStr (text_of ?r)) PNone)" by blast
  then have "fst (request_loop float_digits fake_request sites_list_request [Inr ?r] init_state)
       = Raise (ApiError 404 (PStr ''Not Found'') PNone)" by (simp add: resp_plain_def)
  with h1 h2 h3 h4 show ?thesis by blast
qed

text \<open>
  Claim C6 as stated fails on a 401 with a plain-text body: the message of the error is
  not the raw text but the raw text after \<open>Unauthorized: \<close>, and the error has no
  reason attribute.
\<close>

theorem auth_error_message_is_prefixed:
  "json (resp_plain 401 ''token expired'') = None
   \<and> text_of (resp_plain 401 ''token expired'') = ''token expired''
   \<and> request_exec float_digits fake_request sites_list_request [Inr (resp_plain 401 ''token expired'')] =
     (Raise (AuthError [Lit ''Unauthorized: '', Fmt (PStr ''token expired'')]), [],
      \<lparr>attempts = 1, backoff = 1, sent = [sites_list_request],
       received = [resp_plain 401 ''token expired''], slept = []\<rparr>)
   \<and> exn_message (AuthError [Lit ''Unauthorized: '', Fmt (PStr ''token expired'')])
        \<noteq> [Fmt (PStr ''token expired'')]
   \<and> exn_reason (AuthError [Lit ''Unauthorized: '', Fmt (PStr ''token expired'')]) \<noteq> Some PNone"
  using run_401_plain by (simp add: resp_plain_def)

text \<open>
  Claim C8. Every attempt of a call hands the same descriptor (method, URL, JSON body and
  timeout) to the transport: the requests sent are as many copies of it as there were
  attempts, between one and six, and the world the call leaves behind is the initial one
  after that many sends of that descriptor.
\<close>

theorem descriptor_reused:
  "case request_exec flt send req w of (out, w', st') \<Rightarrow>
     sent st' = replicate (attempts st') req \<and> 1 \<le> attempts st' \<and> attempts st' \<le> 6
     \<and> w' = ((\<lambda>u. snd (send u req)) ^^ attempts st') w"
  using request_exec_sent[where flt = flt and send = send and req = req and w = w]
    request_exec_world[where flt = flt and send = send and req = req and w = w]
  by (simp add: split_beta)

text \<open>
  Claim C3. A pass that retries sleeps once and then doubles the backoff up to the cap of
  16, whether or not the sleep took its duration from a \<open>Retry-After\<close> header; on a
  429 the duration is the header's number when there is a header and the backoff
  otherwise. Over a whole call, which starts with backoff 1: every attempt but the last
  was followed by one sleep, the sleep with index \<open>k\<close> was asked for the duration the
  specification gives for retry \<open>k\<close> and the response it follows, and the backoff at
  the end is the scheduled value after that many retries. The schedule never decreases
  and reads 1, 2, 4, 8, 16, 16, 16.
\<close>

theorem backoff_schedule:
  "(\<forall>resp d. fst (send w req) = Inr resp \<and> attempts st < 5 \<and> time_sleep d = None
        \<and> (status_code resp = 429 \<and> sleep_for_429 flt resp (backoff st) = Inr d
           \<or> 500 \<le> status_code resp \<and> status_code resp < 600 \<and> d = Finite (backoff st)) \<longrightarrow>
      request_loop flt send req w st =
        request_loop flt send req (snd (send w req))
          (st\<lparr>attempts := attempts st + 1, sent := sent st @ [req],
               received := received st @ [resp], slept := slept st @ [d],
               backoff := min (backoff st * 2) max_backoff\<rparr>))
   \<and> (\<forall>resp h d. headers resp ''Retry-After'' = Some h \<and> flt h = Some d \<longrightarrow>
         sleep_for_429 flt resp (backoff st) = Inr d)
   \<and> (\<forall>resp. headers resp ''Retry-After'' = None \<longrightarrow>
         sleep_for_429 flt resp (backoff st) = Inr (Finite (backoff st)))
   \<and> (case request_exec flt send req w of (out, w', st') \<Rightarrow>
        backoff st' = spec_backoff (attempts st' - 1)
        \<and> attempts st' - 1 \<le> length (slept st') \<and> length (slept st') \<le> length (received st')
        \<and> (\<forall>k<length (slept st'). slept st' ! k = spec_sleep flt k (received st' ! k)))
   \<and> (\<forall>j k. j \<le> k \<longrightarrow> spec_backoff j \<le> spec_backoff k)
   \<and> map spec_backoff [0, 1, 2, 3, 4, 5, 6] = [1, 2, 4, 8, 16, 16, 16]"
proof -
  have c1: "\<forall>resp d. fst (send w req) = Inr resp \<and> attempts st < 5 \<and> time_sleep d = None
        \<and> (status_code resp = 429 \<and> sleep_for_429 flt resp (backoff st) = Inr d
           \<or> 500 \<le> status_code resp \<and> status_code resp < 600 \<and> d = Finite (backoff st)) \<longrightarrow>
      request_loop flt send req w st =
        request_loop flt send req (snd (send w req))
          (st\<lparr>attempts := attempts st + 1, sent := sent st @ [req],
               received := received st @ [resp], slept := slept st @ [d],
               backoff := min (backoff st * 2) max_backoff\<rparr>)"
  proof (intro allI impI)
    fix resp d
    assume h: "fst (send w req) = Inr resp \<and> attempts st < 5 \<and> time_sleep d = None
        \<and> (status_code resp = 429 \<and> sleep_for_429 flt resp (backoff st) = Inr d
           \<or> 500 \<le> status_code resp \<and> status_code resp < 600 \<and> d = Finite (backoff st))"
    then have "attempt flt send req w st =
        Continue (snd (send w req))
          (st\<lparr>attempts := attempts st + 1, sent := sent st @ [req],
               received := received st @ [resp], slept := slept st @ [d],
               backoff := min (backoff st * 2) max_backoff\<rparr>)"
      by (auto simp add: attempt_429_retry attempt_5xx_retry)
    then show "request_loop flt send req w st =
        request_loop flt send req (snd (send w req))
          (st\<lparr>attempts := attempts st + 1, sent := sent st @ [req],
               received := received st @ [resp], slept := slept st @ [d],
               backoff := min (backoff st * 2) max_backoff\<rparr>)"
      by (subst request_loop.simps) simp
  qed
  have c2: "\<forall>resp h d. headers resp ''Retry-After'' = Some h \<and> flt h = Some d \<longrightarrow>
         sleep_for_429 flt resp (backoff st) = Inr d"
    by (simp add: sleep_for_429_def)
  have c3: "\<forall>resp. headers resp ''Retry-After'' = None \<longrightarrow>
         sleep_for_429 flt resp (backoff st) = Inr (Finite (backoff st))"
    by (simp add: sleep_for_429_def)
  have c4: "case request_exec flt send req w of (out, w', st') \<Rightarrow>
        backoff st' = spec_backoff (attempts st' - 1)
        \<and> attempts st' - 1 \<le> length (slept st') \<and> length (slept st') \<le> length (received st')
        \<and> (\<forall>k<length (slept st'). slept st' ! k = spec_sleep flt k (received st' ! k))"
    using request_exec_schedule[where flt = flt and send = send and req = req and w = w]
      request_exec_sleep_count[where flt = flt and send = send and req = req and w = w]
    by (simp add: split_beta)
  have c6: "map spec_backoff [0, 1, 2, 3, 4, 5, 6] = [1, 2, 4, 8, 16, 16, 16]"
    by (simp add: spec_backoff_def)
  from c1 c2 c3 c4 c6 spec_backoff_mono show ?thesis by blast
qed

text \<open>A 429 with \<open>Retry-After: 7\<close>, then a 503, then a 200: the sleeps are 7 and 2.\<close>

theorem backoff_schedule_witness:
  "fst (fake_request [Inr (resp_429 (Some ''7'')), Inr (resp_plain 503 ''Service Unavailable''),
                      Inr resp_200_rows] sites_list_request) = Inr (resp_429 (Some ''7''))
   \<and> attempts init_state < 5 \<and> time_sleep (Finite 7) = None
   \<and> status_code (resp_429 (Some ''7'')) = 429
   \<and> headers (resp_429 (Some ''7'')) ''Retry-After'' = Some ''7'' \<and> float_digits ''7'' = Some (Finite 7)
   \<and> sleep_for_429 float_digits (resp_429 (Some ''7'')) (backoff init_state) = Inr (Finite 7)
   \<and> request_loop float_digits fake_request sites_list_request
        [Inr (resp_429 (Some ''7'')), Inr (resp_plain 503 ''Service Unavailable''), Inr resp_200_rows]
        init_state =
      request_loop float_digits fake_request sites_list_request
        [Inr (resp_plain 503 ''Service Unavailable''), Inr resp_200_rows]
        \<lparr>attempts = 1, backoff = 2, sent = [sites_list_request],
         received = [resp_429 (Some ''7'')], slept = [Finite 7]\<rparr>
   \<and> request_exec float_digits fake_request sites_list_request
     [Inr (resp_429 (Some ''7'')), Inr (resp_plain 503 ''Service Unavailable''), Inr resp_200_rows] =
     (Return (PDict [(''rows'', PList []), (''responseAggregationType'', PStr ''auto'')]), [],
      \<lparr>attempts = 3, backoff = 4,
       sent = [sites_list_request, sites_list_request, sites_list_request],
       received = [resp_429 (Some ''7''), resp_plain 503 ''Service Unavailable'', resp_200_rows],
       slept = [Finite 7, Finite 2]\<rparr>)
   \<and> (1::nat) < length [Finite 7, Finite 2]
   \<and> spec_sleep float_digits 0 (resp_429 (Some ''7'')) = Finite 7
   \<and> spec_sleep float_digits 1 (resp_plain 503 ''Service Unavailable'') = Finite 2
   \<and> spec_backoff (3 - 1) = 4
   \<and> (1::nat) \<le> 2 \<and> spec_backoff 1 \<le> spec_backoff 2"
proof -
  let ?w = "[Inr (resp_429 (Some ''7'')), Inr (resp_plain 503 ''Service Unavailable''),
             Inr resp_200_rows]"
  note b = backoff_schedule[where flt = float_digits and send = fake_request
      and req = sites_list_request and w = ?w and st = init_state]
  have h1: "fst (fake_request ?w sites_list_request) = Inr (resp_429 (Some ''7''))" by simp
  have h2: "attempts init_state < 5" by (simp add: init_state_def)
  have h3: "time_sleep (Finite 7) = None" by simp
  have h4: "status_code (resp_429 (Some ''7'')) = 429" by (simp add: resp_429_def)
  have h5: "headers (resp_429 (Some ''7'')) ''Retry-After'' = Some ''7''" by (simp add: resp_429_def)
  have h6: "float_digits ''7'' = Some (Finite 7)" by (simp add: float_digits_def)
  from b h5 h6
  have h7: "sleep_for_429 float_digits (resp_429 (Some ''7'')) (backoff init_state) = Inr (Finite 7)"
    by blast
  from b h1 h2 h3 h4 h7
  have "request_loop float_digits fake_request sites_list_request ?w init_state =
        request_loop float_digits fake_request sites_list_request
          (snd (fake_request ?w sites_list_request))
          (init_state\<lparr>attempts := attempts init_state + 1,
               sent := sent init_state @ [sites_list_request],
               received := received init_state @ [resp_429 (Some ''7'')],
               slept := slept init_state @ [Finite 7],
               backoff := min (backoff init_state * 2) max_backoff\<rparr>)"
    by blast
  then have stp: "request_loop float_digits fake_request sites_list_request ?w init_state =
      request_loop float_digits fake_request sites_list_request
        [Inr (resp_plain 503 ''Service Unavailable''), Inr resp_200_rows]
        \<lparr>attempts = 1, backoff = 2, sent = [sites_list_request],
         received = [resp_429 (Some ''7'')], slept = [Finite 7]\<rparr>"
    by (simp add: init_state_def max_backoff_def)
  from b have all: "\<forall>k<length [Finite 7, Finite 2 :: pyfloat]. [Finite 7, Finite 2] ! k =
      spec_sleep float_digits k
        ([resp_429 (Some ''7''), resp_plain 503 ''Service Unavailable'', resp_200_rows] ! k)"
    and bk: "(4::rat) = spec_backoff (3 - 1)"
    by (simp_all add: run_retry_then_ok)
  have l: "(1::nat) < length [Finite 7, Finite 2 :: pyfloat]"
    "(0::nat) < length [Finite 7, Finite 2 :: pyfloat]"
    by simp_all
  from all[rule_format, OF l(1)]
  have s1: "spec_sleep float_digits 1 (resp_plain 503 ''Service Unavailable'') = Finite 2"
    by simp
  from all[rule_format, OF l(2)]
  have s0: "spec_sleep float_digits 0 (resp_429 (Some ''7'')) = Finite 7"
    by simp
  from b have m: "spec_backoff 1 \<le> spec_backoff 2" by simp
  from h1 h2 h3 h4 h5 h6 h7 stp run_retry_then_ok s0 s1 bk m show ?thesis by simp
qed

text \<open>
  Claim C1 against the code. Six 429 responses whose \<open>Retry-After\<close> header holds an
  HTTP date: the call makes one attempt and ends with the ValueError of \<open>float\<close>,
  where the claim has six attempts and a \<open>RateLimitError\<close>. Lemma
  \<open>retry_ceiling_wellformed\<close> above gives the six attempts for headers that convert.
\<close>

theorem retry_ceiling_broken_by_header:
  "request_exec float_digits fake_request sites_list_request
     (replicate 6 (Inr (resp_429 (Some ''Wed, 21 Oct 2015 07:28:00 GMT'')))) =
     (Raise ValueError, replicate 5 (Inr (resp_429 (Some ''Wed, 21 Oct 2015 07:28:00 GMT''))),
      \<lparr>attempts = 1, backoff = 1, sent = [sites_list_request],
       received = [resp_429 (Some ''Wed, 21 Oct 2015 07:28:00 GMT'')], slept = []\<rparr>)"
  by (simp add: run_defs numeral_eq_Suc)

text \<open>
  Claim C5 against the code. A 429 whose \<open>Retry-After\<close> header holds an HTTP date,
  followed by a 200: the specification's sleep is the backoff of 1, but the call makes no
  sleep and no second attempt and ends with the ValueError of \<open>float\<close>.
\<close>

theorem retry_after_unparseable_raises:
  "headers (resp_429 (Some ''Wed, 21 Oct 2015 07:28:00 GMT'')) ''Retry-After''
      = Some ''Wed, 21 Oct 2015 07:28:00 GMT''
   \<and> float_digits ''Wed, 21 Oct 2015 07:28:00 GMT'' = None
   \<and> spec_sleep float_digits 0 (resp_429 (Some ''Wed, 21 Oct 2015 07:28:00 GMT'')) = Finite 1
   \<and> request_exec float_digits fake_request sites_list_request
       [Inr (resp_429 (Some ''Wed, 21 Oct 2015 07:28:00 GMT'')), Inr resp_200_rows] =
       (Raise ValueError, [Inr resp_200_rows],
        \<lparr>attempts = 1, backoff = 1, sent = [sites_list_request],
         received = [resp_429 (Some ''Wed, 21 Oct 2015 07:28:00 GMT'')], slept = []\<rparr>)"
  using run_bad_header
  by (simp add: resp_429_def float_digits_def spec_sleep_def spec_backoff_def)

end
